theory Spec2Isabelle
  imports Complex_Main "HOL-Library.AList"
begin

section \<open>Joining the cLang-8 targets with the Lang-8 raw corpus\<close>

text \<open>
  A shallow embedding of \<^verbatim>\<open>prepare_clang8_dataset.py\<close>. Python texts are
  \<open>string\<close>s, one \<open>char\<close> per code point (code points below 256). Exceptions are
  values of the type \<open>error\<close>; a generator is the finite list of the actions it performs
  when it is driven to its end, and a consumer that stops early sees a prefix of it.
\<close>

subsection \<open>Values and exceptions\<close>

abbreviation TAB :: char where "TAB \<equiv> CHR 0x09"
abbreviation LF :: char where "LF \<equiv> CHR 0x0A"
abbreviation CR :: char where "CR \<equiv> CHR 0x0D"
abbreviation SPACE :: char where "SPACE \<equiv> CHR 0x20"

text \<open>The reason carried by a \<^verbatim>\<open>ValueError\<close>.\<close>

datatype cause =
    Unsupported_language string  \<comment> \<open>\<^verbatim>\<open>raise ValueError(f'Unsupported language: {language}')\<close>\<close>
  | Unpack_mismatch              \<comment> \<open>wrong number of values in a tuple assignment\<close>
  | Invalid_literal              \<comment> \<open>\<^verbatim>\<open>int\<close> applied to a text that is no integer literal,
                                     or one of more than 4300 digits\<close>
  | Float_nan                    \<comment> \<open>\<^verbatim>\<open>int\<close> applied to a NaN\<close>
  | Not_a_text                   \<comment> \<open>the tokenizer given something that is no text\<close>

datatype error =
    ValueError cause
  | TypeError
  | IndexError
  | KeyError
  | AttributeError
  | OverflowError
  | OSError
  | UnicodeDecodeError
  | RecursionError

text \<open>
  The values \<^verbatim>\<open>json.loads\<close> returns. A float is given by its value; an object is
  the decoded \<^verbatim>\<open>dict\<close>, its keys in insertion order.
\<close>

datatype pyfloat = Finite rat | Infinite | NaN

datatype json =
    JNull
  | JBool bool
  | JInt int
  | JFloat pyfloat
  | JString string
  | JArray "json list"
  | JObject "(string \<times> json) list"

subsection \<open>Built-in operations of the language\<close>

text \<open>\<^verbatim>\<open>text.replace(old, new)\<close> for one-character \<open>old\<close> and \<open>new\<close>.\<close>

definition replace :: "char \<Rightarrow> char \<Rightarrow> string \<Rightarrow> string" where
  "replace old new text = map (\<lambda>c. if c = old then new else c) text"

text \<open>\<^verbatim>\<open>line.split(sep)\<close> for a one-character separator: never an empty list.\<close>

fun split_from :: "char \<Rightarrow> string \<Rightarrow> string \<Rightarrow> string list" where
  "split_from sep cur [] = [rev cur]"
| "split_from sep cur (c # cs) =
     (if c = sep then rev cur # split_from sep [] cs else split_from sep (c # cur) cs)"

definition split :: "char \<Rightarrow> string \<Rightarrow> string list" where
  "split sep text = split_from sep [] text"

text \<open>
  \<^verbatim>\<open>str.splitlines()\<close>: a line ends at a line feed, a carriage return (with the line
  feed that follows it, if any), a vertical tab, a form feed, a file, group or record
  separator, or a next-line character. No empty last line is produced.
\<close>

definition is_line_boundary :: "char \<Rightarrow> bool" where
  "is_line_boundary c =
     (let n = (of_char c :: nat)
      in (10 \<le> n \<and> n \<le> 13) \<or> (28 \<le> n \<and> n \<le> 30) \<or> n = 133)"

function splitlines_from :: "string \<Rightarrow> string \<Rightarrow> string list" where
  "splitlines_from cur [] = (if cur = [] then [] else [rev cur])"
| "splitlines_from cur (c # cs) =
     (if is_line_boundary c
      then rev cur # splitlines_from [] (if c = CR \<and> take 1 cs = [LF] then drop 1 cs else cs)
      else splitlines_from (c # cur) cs)"
  by pat_completeness auto
termination
  by (relation "measure (\<lambda>(cur, cs). length cs)") auto

definition splitlines :: "string \<Rightarrow> string list" where
  "splitlines text = splitlines_from [] text"

text \<open>
  \<^verbatim>\<open>int(text)\<close>: white space around the literal is dropped, which is the characters
  9 to 13, the space, the next-line character and the no-break space; the literal is an
  optional sign and decimal digits, single underscores allowed between digits. A
  literal of more than 4300 digits is refused (the interpreter's default limit).
\<close>

definition is_space :: "char \<Rightarrow> bool" where
  "is_space c =
     (let n = (of_char c :: nat)
      in (9 \<le> n \<and> n \<le> 13) \<or> n = 32 \<or> n = 133 \<or> n = 160)"

definition is_digit :: "char \<Rightarrow> bool" where
  "is_digit c = (let n = (of_char c :: nat) in 48 \<le> n \<and> n \<le> 57)"

definition digit_value :: "char \<Rightarrow> nat" where
  "digit_value c = of_char c - 48"

fun digits_from :: "nat \<Rightarrow> string \<Rightarrow> nat option" where
  "digits_from acc [] = Some acc"
| "digits_from acc [c] = (if is_digit c then Some (10 * acc + digit_value c) else None)"
| "digits_from acc (c # d # cs) =
     (if is_digit c then digits_from (10 * acc + digit_value c) (d # cs)
      else if c = CHR ''_'' \<and> is_digit d then digits_from acc (d # cs)
      else None)"

definition int_max_str_digits :: nat where
  "int_max_str_digits = 4300"

definition digits :: "string \<Rightarrow> nat option" where
  "digits s =
     (case s of
        [] \<Rightarrow> None
      | c # cs \<Rightarrow>
          if int_max_str_digits < length (filter is_digit s) then None
          else if is_digit c then digits_from (digit_value c) cs
          else None)"

definition strip :: "string \<Rightarrow> string" where
  "strip s = rev (dropWhile is_space (rev (dropWhile is_space s)))"

definition int_of_text :: "string \<Rightarrow> int option" where
  "int_of_text s =
     (case strip s of
        [] \<Rightarrow> None
      | c # cs \<Rightarrow>
          if c = CHR ''-'' then map_option (\<lambda>n. - int n) (digits cs)
          else if c = CHR ''+'' then map_option int (digits cs)
          else map_option int (digits (c # cs)))"

text \<open>\<^verbatim>\<open>int(x)\<close> for a decoded value \<open>x\<close>; a float is truncated towards zero.\<close>

fun py_int :: "json \<Rightarrow> error + int" where
  "py_int (JInt i) = Inr i"
| "py_int (JBool b) = Inr (if b then 1 else 0)"
| "py_int (JFloat (Finite q)) = Inr (if 0 \<le> q then \<lfloor>q\<rfloor> else \<lceil>q\<rceil>)"
| "py_int (JFloat Infinite) = Inl OverflowError"
| "py_int (JFloat NaN) = Inl (ValueError Float_nan)"
| "py_int (JString s) =
     (case int_of_text s of None \<Rightarrow> Inl (ValueError Invalid_literal) | Some i \<Rightarrow> Inr i)"
| "py_int JNull = Inl TypeError"
| "py_int (JArray xs) = Inl TypeError"
| "py_int (JObject kvs) = Inl TypeError"

text \<open>
  Iterating a value, as a tuple assignment does: the elements of an array, the
  one-character texts of a text, the keys of an object.
\<close>

fun iterate :: "json \<Rightarrow> error + json list" where
  "iterate (JArray xs) = Inr xs"
| "iterate (JString s) = Inr (map (\<lambda>c. JString [c]) s)"
| "iterate (JObject kvs) = Inr (map (\<lambda>kv. JString (fst kv)) kvs)"
| "iterate v = Inl TypeError"

text \<open>Indexing a sequence: a negative index counts from the end.\<close>

definition item :: "'a list \<Rightarrow> int \<Rightarrow> error + 'a" where
  "item xs i =
     (if 0 \<le> i \<and> i < int (length xs) then Inr (xs ! nat i)
      else if - int (length xs) \<le> i \<and> i < 0 then Inr (xs ! nat (int (length xs) + i))
      else Inl IndexError)"

text \<open>
  \<^verbatim>\<open>sources[sentence_number]\<close> for a decoded value and an integer: an object has
  texts for keys, so no integer is among them.
\<close>

fun subscript :: "json \<Rightarrow> int \<Rightarrow> error + json" where
  "subscript (JArray xs) i = item xs i"
| "subscript (JString s) i =
     (case item s i of Inl e \<Rightarrow> Inl e | Inr c \<Rightarrow> Inr (JString [c]))"
| "subscript (JObject kvs) i = Inl KeyError"
| "subscript v i = Inl TypeError"

text \<open>\<^verbatim>\<open>' '.join(tokens)\<close>.\<close>

fun join_spaces :: "string list \<Rightarrow> string" where
  "join_spaces [] = []"
| "join_spaces [t] = t"
| "join_spaces (t # u # ts) = t @ SPACE # join_spaces (u # ts)"

text \<open>\<^verbatim>\<open>os.path.join(a, b)\<close> with the separator \<^verbatim>\<open>/\<close>.\<close>

definition path_join :: "string \<Rightarrow> string \<Rightarrow> string" where
  "path_join a b =
     (if take 1 b = ''/'' then b
      else if a = [] \<or> last a = CHR ''/'' then a @ b
      else a @ ''/'' @ b)"

subsection \<open>Files, reports and generators\<close>

text \<open>What the program prints, one constructor for each \<^verbatim>\<open>print\<close> of the source.\<close>

datatype report =
    Raw_documents_read nat   \<comment> \<open>\<^verbatim>\<open>'{num_rows} Lang-8 raw documents read.'\<close>\<close>
  | Targets_read nat         \<comment> \<open>\<^verbatim>\<open>'{num_targets} cLang-8 targets read.'\<close>\<close>
  | Sources_mapped nat       \<comment> \<open>\<^verbatim>\<open>'{progress_bar.n} sources mapped to cLang-8 targets.'\<close>\<close>
  | Tokenizing               \<comment> \<open>\<^verbatim>\<open>'Tokenizing...'\<close>\<close>
  | Wrote string             \<comment> \<open>\<^verbatim>\<open>'Wrote the source-target pairs to:'\<close> and the path\<close>

datatype event =
    Open_read string         \<comment> \<open>\<^verbatim>\<open>open(path)\<close>\<close>
  | Open_write string        \<comment> \<open>\<^verbatim>\<open>open(path, 'w')\<close>\<close>
  | Load_model string        \<comment> \<open>\<^verbatim>\<open>spacy.load(model_path, ...)\<close>\<close>
  | Print report

text \<open>
  One step of a running generator: it yields a value, has an effect on the outside, or
  raises, which ends it. A generator that is exhausted has performed its whole list.
\<close>

datatype 'a action = Yield 'a | Effect event | Raise error

fun yielded :: "'a action list \<Rightarrow> 'a list" where
  "yielded [] = []"
| "yielded (Yield x # as) = x # yielded as"
| "yielded (Effect ev # as) = yielded as"
| "yielded (Raise e # as) = []"

fun raised :: "'a action list \<Rightarrow> error option" where
  "raised [] = None"
| "raised (Yield x # as) = raised as"
| "raised (Effect ev # as) = raised as"
| "raised (Raise e # as) = Some e"

fun effects :: "'a action list \<Rightarrow> event list" where
  "effects [] = []"
| "effects (Yield x # as) = effects as"
| "effects (Effect ev # as) = ev # effects as"
| "effects (Raise e # as) = []"

text \<open>
  What becomes of one line of the raw corpus: \<^verbatim>\<open>json.loads\<close> returns a value on it;
  or raises \<^verbatim>\<open>JSONDecodeError\<close>; or reading or decoding the line raises another
  error, as \<^verbatim>\<open>json.loads\<close> does on an integer of more than 4300 digits
  (\<^verbatim>\<open>ValueError\<close>) or on brackets nested too deeply (\<^verbatim>\<open>RecursionError\<close>), and the
  file does on bytes that are no text (\<^verbatim>\<open>UnicodeDecodeError\<close>).
\<close>

datatype line = Decodes json | Malformed | Aborts error

text \<open>
  What the program finds outside itself. \<open>read_text path\<close> is the text
  \<^verbatim>\<open>open(path).read()\<close> returns, or the error it raises. \<open>read_json_lines path\<close>
  is what becomes of each line of the file at \<open>path\<close>, in order; or the error
  \<^verbatim>\<open>open\<close> raises. \<open>load_model\<close> gives the segmentation of texts into tokens that
  the named spaCy model performs. \<open>create_file path\<close> is the error of
  \<^verbatim>\<open>open(path, 'w')\<close>, if any; writes to an opened file succeed.
\<close>

record world =
  read_text :: "string \<Rightarrow> error + string"
  read_json_lines :: "string \<Rightarrow> error + line list"
  load_model :: "string \<Rightarrow> error + (string \<Rightarrow> string list)"
  create_file :: "string \<Rightarrow> error option"

subsection \<open>Reading the raw corpus\<close>

text \<open>
  The loop of \<^verbatim>\<open>_yield_lang8_raw_dicts\<close>, \<open>num_rows\<close> being its counter: a line on
  which \<^verbatim>\<open>JSONDecodeError\<close> is raised is passed over, since that is the one error
  caught; any other error ends the generator; the rows that decode are yielded and
  counted, and the count is printed when the lines are exhausted.
\<close>

fun yield_rows :: "line list \<Rightarrow> nat \<Rightarrow> json action list" where
  "yield_rows [] num_rows = [Effect (Print (Raw_documents_read num_rows))]"
| "yield_rows (Malformed # lines) num_rows = yield_rows lines num_rows"
| "yield_rows (Aborts e # lines) num_rows = [Raise e]"
| "yield_rows (Decodes row # lines) num_rows = Yield row # yield_rows lines (num_rows + 1)"

definition yield_lang8_raw_dicts :: "world \<Rightarrow> string \<Rightarrow> json action list" where
  "yield_lang8_raw_dicts w lang8_raw_dir =
     (let path = path_join lang8_raw_dir ''lang-8-20111007-L1-v2.dat''
      in Effect (Open_read path) #
         (case read_json_lines w path of
            Inl e \<Rightarrow> [Raise e]
          | Inr lines \<Rightarrow> yield_rows lines 0))"

subsection \<open>Reading the targets\<close>

text \<open>
  The index \<^verbatim>\<open>ids_2_targets\<close>: a dictionary from \<open>(journal_id, sentence_id)\<close> to the
  list of \<open>(sentence_number, target)\<close>, as the list of its items in insertion order.
\<close>

type_synonym ids = "int \<times> int"
type_synonym target = "int \<times> string"
type_synonym index = "(ids \<times> target list) list"

text \<open>\<^verbatim>\<open>ids_2_targets.get(key, ())\<close>.\<close>

definition get :: "index \<Rightarrow> ids \<Rightarrow> target list" where
  "get ids_2_targets key = (case map_of ids_2_targets key of None \<Rightarrow> [] | Some ts \<Rightarrow> ts)"

text \<open>
  \<^verbatim>\<open>ids_2_targets[key].append(t)\<close> on a \<^verbatim>\<open>defaultdict(list)\<close>: a missing key is
  entered with the empty list first, after the keys already there.
\<close>

definition append_target :: "ids \<Rightarrow> target \<Rightarrow> index \<Rightarrow> index" where
  "append_target key t ids_2_targets =
     AList.update key (get ids_2_targets key @ [t]) ids_2_targets"

text \<open>
  One line of the targets file: split at the tabs into exactly five fields, of which the
  first three are converted with \<^verbatim>\<open>int\<close>, in this order.
\<close>

definition target_entry :: "string \<Rightarrow> error + (ids \<times> target)" where
  "target_entry line =
     (case split TAB line of
        [journal_id, sentence_id, sentence_number, unused, target] \<Rightarrow>
          (case int_of_text journal_id of
             None \<Rightarrow> Inl (ValueError Invalid_literal)
           | Some j \<Rightarrow>
               (case int_of_text sentence_id of
                  None \<Rightarrow> Inl (ValueError Invalid_literal)
                | Some s \<Rightarrow>
                    (case int_of_text sentence_number of
                       None \<Rightarrow> Inl (ValueError Invalid_literal)
                     | Some n \<Rightarrow> Inr ((j, s), (n, target)))))
      | _ \<Rightarrow> Inl (ValueError Unpack_mismatch))"

fun build_index :: "string list \<Rightarrow> index \<Rightarrow> error + index" where
  "build_index [] ids_2_targets = Inr ids_2_targets"
| "build_index (line # lines) ids_2_targets =
     (case target_entry line of
        Inl e \<Rightarrow> Inl e
      | Inr (key, t) \<Rightarrow> build_index lines (append_target key t ids_2_targets))"

definition num_targets_of :: "index \<Rightarrow> nat" where
  "num_targets_of ids_2_targets = sum_list (map (\<lambda>kv. length (snd kv)) ids_2_targets)"

text \<open>
  \<^verbatim>\<open>_read_clang8_targets\<close>: the events it causes, and the index with the number of
  targets, or the error that ends it.
\<close>

definition read_clang8_targets :: "world \<Rightarrow> string \<Rightarrow> event list \<times> (error + index \<times> nat)" where
  "read_clang8_targets w path =
     (case read_text w path of
        Inl e \<Rightarrow> ([Open_read path], Inl e)
      | Inr text \<Rightarrow>
          (case build_index (splitlines text) [] of
             Inl e \<Rightarrow> ([Open_read path], Inl e)
           | Inr ids_2_targets \<Rightarrow>
               (let num_targets = num_targets_of ids_2_targets
                in ([Open_read path, Print (Targets_read num_targets)],
                    Inr (ids_2_targets, num_targets)))))"

subsection \<open>The join\<close>

text \<open>
  \<^verbatim>\<open>journal_id, sentence_id, *_, sources, _ = row\<close>: at least four values are needed;
  the third of the result is the last but one.
\<close>

definition unpack_row :: "json \<Rightarrow> error + json \<times> json \<times> json" where
  "unpack_row row =
     (case iterate row of
        Inl e \<Rightarrow> Inl e
      | Inr vs \<Rightarrow>
          if length vs < 4 then Inl (ValueError Unpack_mismatch)
          else Inr (vs ! 0, vs ! 1, vs ! (length vs - 2)))"

definition raw_ids :: "json \<Rightarrow> json \<Rightarrow> error + ids" where
  "raw_ids journal_id sentence_id =
     (case py_int journal_id of
        Inl e \<Rightarrow> Inl e
      | Inr j \<Rightarrow> (case py_int sentence_id of Inl e \<Rightarrow> Inl e | Inr s \<Rightarrow> Inr (j, s)))"

text \<open>
  The inner loop over the targets of one row: each yields
  \<^verbatim>\<open>sources[sentence_number], target\<close>; the first subscript that raises ends it.
\<close>

fun emit :: "json \<Rightarrow> target list \<Rightarrow> (json \<times> json) list \<times> error option" where
  "emit sources [] = ([], None)"
| "emit sources ((sentence_number, target) # ts) =
     (case subscript sources sentence_number of
        Inl e \<Rightarrow> ([], Some e)
      | Inr source \<Rightarrow>
          (case emit sources ts of (ps, r) \<Rightarrow> ((source, JString target) # ps, r)))"

text \<open>The body of the outer loop for one row: the pairs it yields and its error, if any.\<close>

definition join_row :: "index \<Rightarrow> json \<Rightarrow> (json \<times> json) list \<times> error option" where
  "join_row ids_2_targets row =
     (case unpack_row row of
        Inl e \<Rightarrow> ([], Some e)
      | Inr (journal_id, sentence_id, sources) \<Rightarrow>
          (case raw_ids journal_id sentence_id of
             Inl e \<Rightarrow> ([], Some e)
           | Inr lang8_raw_ids \<Rightarrow> emit sources (get ids_2_targets lang8_raw_ids)))"

text \<open>
  The outer loop, driven by the actions of the raw-corpus reader; \<open>n\<close> is
  \<^verbatim>\<open>progress_bar.n\<close>, printed when the reader is exhausted.
\<close>

fun join_loop :: "index \<Rightarrow> nat \<Rightarrow> json action list \<Rightarrow> (json \<times> json) action list" where
  "join_loop ids_2_targets n [] = [Effect (Print (Sources_mapped n))]"
| "join_loop ids_2_targets n (Effect ev # as) = Effect ev # join_loop ids_2_targets n as"
| "join_loop ids_2_targets n (Raise e # as) = [Raise e]"
| "join_loop ids_2_targets n (Yield row # as) =
     (case join_row ids_2_targets row of
        (ps, Some e) \<Rightarrow> map Yield ps @ [Raise e]
      | (ps, None) \<Rightarrow> map Yield ps @ join_loop ids_2_targets (n + length ps) as)"

definition yield_clang8_source_target_pairs ::
  "world \<Rightarrow> string \<Rightarrow> string \<Rightarrow> (json \<times> json) action list" where
  "yield_clang8_source_target_pairs w clang8_path lang8_raw_dir =
     (case read_clang8_targets w clang8_path of
        (evs, Inl e) \<Rightarrow> map Effect evs @ [Raise e]
      | (evs, Inr (ids_2_targets, num_targets)) \<Rightarrow>
          map Effect evs @ join_loop ids_2_targets 0 (yield_lang8_raw_dicts w lang8_raw_dir))"

subsection \<open>Tokenization\<close>

text \<open>
  \<^verbatim>\<open>nlp.pipe(texts, batch_size)\<close>, taken from the library's contract: one document for
  each text, in the order of the texts, whatever the batch size; something that is no
  text is refused when its turn comes. A document is given by the texts of its tokens.
\<close>

definition pipe :: "(string \<Rightarrow> string list) \<Rightarrow> json list \<Rightarrow> (error + string list) list" where
  "pipe nlp texts =
     map (\<lambda>text. case text of JString s \<Rightarrow> Inr (nlp s) | _ \<Rightarrow> Inl (ValueError Not_a_text)) texts"

text \<open>The loop over \<^verbatim>\<open>zip(source_docs, target_docs)\<close>.\<close>

fun tokenize_loop ::
  "(error + string list) list \<Rightarrow> (error + string list) list \<Rightarrow> (json \<times> json) action list" where
  "tokenize_loop (Inl e # source_docs) target_docs = [Raise e]"
| "tokenize_loop (Inr source # source_docs) (Inl e # target_docs) = [Raise e]"
| "tokenize_loop (Inr source # source_docs) (Inr target # target_docs) =
     Yield (JString (join_spaces source), JString (join_spaces target)) #
     tokenize_loop source_docs target_docs"
| "tokenize_loop source_docs target_docs = []"

text \<open>
  \<^verbatim>\<open>_tokenize\<close>: \<^verbatim>\<open>list(pairs)\<close> drives the generator it is given to its end, with
  the effects that has, before anything is yielded.
\<close>

definition tokenize ::
  "(json \<times> json) action list \<Rightarrow> (string \<Rightarrow> string list) \<Rightarrow> (json \<times> json) action list" where
  "tokenize pairs nlp =
     map Effect (effects pairs) @
     (case raised pairs of
        Some e \<Rightarrow> [Raise e]
      | None \<Rightarrow>
          Effect (Print Tokenizing) #
          tokenize_loop (pipe nlp (map fst (yielded pairs))) (pipe nlp (map snd (yielded pairs))))"

subsection \<open>Writing the pairs\<close>

text \<open>\<^verbatim>\<open>_clean_spaces\<close>: only a text has the method \<^verbatim>\<open>replace\<close>.\<close>

fun clean_spaces :: "json \<Rightarrow> error + string" where
  "clean_spaces (JString text) =
     Inr (replace CR SPACE (replace LF SPACE (replace TAB SPACE text)))"
| "clean_spaces v = Inl AttributeError"

text \<open>
  The loop of \<^verbatim>\<open>_write_source_target_pairs_to_tsv\<close>: the events of the generator it
  drives, the text written to the file, and the error that ends it, if any.
\<close>

fun write_loop :: "(json \<times> json) action list \<Rightarrow> event list \<times> string \<times> error option" where
  "write_loop [] = ([], [], None)"
| "write_loop (Effect ev # as) =
     (case write_loop as of (evs, out, r) \<Rightarrow> (ev # evs, out, r))"
| "write_loop (Raise e # as) = ([], [], Some e)"
| "write_loop (Yield (source, target) # as) =
     (case clean_spaces source of
        Inl e \<Rightarrow> ([], [], Some e)
      | Inr s \<Rightarrow>
          (case clean_spaces target of
             Inl e \<Rightarrow> ([], [], Some e)
           | Inr t \<Rightarrow>
               (case write_loop as of (evs, out, r) \<Rightarrow> (evs, (s @ TAB # t @ [LF]) @ out, r))))"

text \<open>
  What a run leaves behind: its events in order, the file it created with the text
  written to it, and the error it ended with, if any.
\<close>

record outcome =
  events :: "event list"
  written :: "(string \<times> string) option"
  failure :: "error option"

definition write_source_target_pairs_to_tsv ::
  "world \<Rightarrow> (json \<times> json) action list \<Rightarrow> string \<Rightarrow> outcome" where
  "write_source_target_pairs_to_tsv w pairs output_path =
     (case create_file w output_path of
        Some e \<Rightarrow> \<lparr>events = [Open_write output_path], written = None, failure = Some e\<rparr>
      | None \<Rightarrow>
          (case write_loop pairs of
             (evs, out, Some e) \<Rightarrow>
               \<lparr>events = Open_write output_path # evs,
                written = Some (output_path, out), failure = Some e\<rparr>
           | (evs, out, None) \<Rightarrow>
               \<lparr>events = Open_write output_path # evs @ [Print (Wrote output_path)],
                written = Some (output_path, out), failure = None\<rparr>))"

subsection \<open>One language\<close>

definition model_path_of :: "string \<Rightarrow> error + string" where
  "model_path_of language =
     (if language = ''en'' then Inr ''en_core_web_sm''
      else if language = ''de'' then Inr ''de_core_news_sm''
      else if language = ''ru'' then Inr ''ru_core_news_sm''
      else Inl (ValueError (Unsupported_language language)))"

definition output_path_of :: "string \<Rightarrow> string \<Rightarrow> string \<Rightarrow> string" where
  "output_path_of output_dir language tokenization_label =
     path_join output_dir (''clang8_source_target_'' @ language @ tokenization_label @ ''.tsv'')"

definition prepare_clang8 ::
  "world \<Rightarrow> string \<Rightarrow> string \<Rightarrow> string \<Rightarrow> string \<Rightarrow> bool \<Rightarrow> outcome" where
  "prepare_clang8 w language clang8_targets_dir lang8_dir output_dir tokenize_text =
     (case model_path_of language of
        Inl e \<Rightarrow> \<lparr>events = [], written = None, failure = Some e\<rparr>
      | Inr model_path \<Rightarrow>
          (let clang8_targets_path =
                 path_join clang8_targets_dir (''clang8_'' @ language @ ''.detokenized.tsv'');
               source_target_pairs =
                 yield_clang8_source_target_pairs w clang8_targets_path lang8_dir
           in if tokenize_text
              then (case load_model w model_path of
                      Inl e \<Rightarrow>
                        \<lparr>events = [Load_model model_path], written = None, failure = Some e\<rparr>
                    | Inr nlp \<Rightarrow>
                        (let r = write_source_target_pairs_to_tsv w
                                   (tokenize source_target_pairs nlp)
                                   (output_path_of output_dir language ''.spacy_tokenized'')
                         in r\<lparr>events := Load_model model_path # events r\<rparr>))
              else write_source_target_pairs_to_tsv w source_target_pairs
                     (output_path_of output_dir language [])))"

subsection \<open>Notions used to state the properties\<close>

text \<open>The rows that decode, in the order of their lines.\<close>

definition decoded :: "line list \<Rightarrow> json list" where
  "decoded lines = [row. Decodes row \<leftarrow> lines]"

text \<open>The index after the given target entries have been appended to it, one by one.\<close>

definition index_of :: "(ids \<times> target) list \<Rightarrow> index \<Rightarrow> index" where
  "index_of entries ids_2_targets =
     fold (\<lambda>e. append_target (fst e) (snd e)) entries ids_2_targets"

text \<open>
  The raw record a row stands for: its ids and its sentences, when the row can be
  unpacked and both ids converted.
\<close>

definition fields_of_row :: "json \<Rightarrow> (ids \<times> json) option" where
  "fields_of_row row =
     (case unpack_row row of
        Inl e \<Rightarrow> None
      | Inr (journal_id, sentence_id, sources) \<Rightarrow>
          (case raw_ids journal_id sentence_id of
             Inl e \<Rightarrow> None
           | Inr key \<Rightarrow> Some (key, sources)))"

text \<open>The outer loop of the join on the rows alone: the pairs yielded and the error, if any.\<close>

fun join_rows :: "index \<Rightarrow> json list \<Rightarrow> (json \<times> json) list \<times> error option" where
  "join_rows idx [] = ([], None)"
| "join_rows idx (row # rows) =
     (case join_row idx row of
        (ps, Some e) \<Rightarrow> (ps, Some e)
      | (ps, None) \<Rightarrow> (case join_rows idx rows of (qs, r) \<Rightarrow> (ps @ qs, r)))"

text \<open>
  The sentences and the target of every pair due, record by record in the order of the
  records, and for one record in the order of its list in the index.
\<close>

definition expected :: "index \<Rightarrow> (ids \<times> json) list \<Rightarrow> (json \<times> target) list" where
  "expected idx recs = concat (map (\<lambda>r. map (Pair (snd r)) (get idx (fst r))) recs)"

text \<open>
  The sentences and the target entry of every pair due, from the entries of the targets
  file: record by record in the order of the records, and for one record the entries of
  its key in the order of the file.
\<close>

definition due :: "(ids \<times> target) list \<Rightarrow> (ids \<times> json) list \<Rightarrow> (json \<times> target) list" where
  "due entries records =
     concat (map (\<lambda>r. map (\<lambda>e. (snd r, snd e)) (filter (\<lambda>e. fst e = fst r) entries)) records)"

text \<open>
  Whether the sentence number of a target entry indexes the sentences it is paired with,
  so that the subscript raises nothing.
\<close>

definition in_range :: "json \<times> target \<Rightarrow> bool" where
  "in_range st = (case subscript (fst st) (fst (snd st)) of Inl e \<Rightarrow> False | Inr v \<Rightarrow> True)"

text \<open>
  Examples: a targets file of three lines, two for the key \<open>(1, 2)\<close> with the sentence
  numbers 1 and 0 in this order, and one for the key \<open>(9, 9)\<close>; and a row with the key
  \<open>(1, 2)\<close> and two sentences.
\<close>

definition example_targets :: string where
  "example_targets =
     [CHR ''1'', TAB, CHR ''2'', TAB, CHR ''1'', TAB, CHR ''-'', TAB, CHR ''x'', LF,
      CHR ''1'', TAB, CHR ''2'', TAB, CHR ''0'', TAB, CHR ''-'', TAB, CHR ''y'', LF,
      CHR ''9'', TAB, CHR ''9'', TAB, CHR ''0'', TAB, CHR ''-'', TAB, CHR ''z'', LF]"

definition example_row :: json where
  "example_row = JArray [JInt 1, JInt 2, JArray [JString ''a'', JString ''b''], JNull]"

text \<open>A text with every tab, line feed and carriage return replaced by one space.\<close>

definition sanitized :: "string \<Rightarrow> string" where
  "sanitized text = map (\<lambda>c. if c = TAB \<or> c = LF \<or> c = CR then SPACE else c) text"

text \<open>The targets file of the scenario: one line with the fields 1, 2, 0, - and the target.\<close>

definition scenario_targets :: string where
  "scenario_targets =
     ''1'' @ [TAB] @ ''2'' @ [TAB] @ ''0'' @ [TAB] @ ''-'' @ [TAB] @ ''Hello world.''"

text \<open>
  A world for examples: every text file reads as \<open>text\<close>, the lines of every corpus
  decode to \<open>lines\<close>, every model splits at spaces, and every file can be created.
\<close>

definition fixed_world :: "string \<Rightarrow> line list \<Rightarrow> world" where
  "fixed_world text lines =
     \<lparr>read_text = (\<lambda>path. Inr text),
      read_json_lines = (\<lambda>path. Inr lines),
      load_model = (\<lambda>model_path. Inr (split SPACE)),
      create_file = (\<lambda>path. None)\<rparr>"

subsection \<open>Generators, the reader and the builder\<close>

lemma decoded_simps [simp]:
  "decoded [] = []"
  "decoded (Malformed # ls) = decoded ls"
  "decoded (Aborts e # ls) = decoded ls"
  "decoded (Decodes r # ls) = r # decoded ls"
  by (simp_all add: decoded_def)

lemma yielded_map_Yield [simp]: "yielded (map Yield xs @ as) = xs @ yielded as"
  by (induction xs) auto

lemma raised_map_Yield [simp]: "raised (map Yield xs @ as) = raised as"
  by (induction xs) auto

lemma effects_map_Yield [simp]: "effects (map Yield xs @ as) = effects as"
  by (induction xs) auto

lemma yielded_map_Effect [simp]: "yielded (map Effect evs @ as) = yielded as"
  by (induction evs) auto

lemma raised_map_Effect [simp]: "raised (map Effect evs @ as) = raised as"
  by (induction evs) auto

lemma effects_map_Effect [simp]: "effects (map Effect evs @ as) = evs @ effects as"
  by (induction evs) auto

lemma yield_rows_eq:
  "(\<forall>e. Aborts e \<notin> set lines) \<Longrightarrow>
   yield_rows lines n =
     map Yield (decoded lines) @ [Effect (Print (Raw_documents_read (n + length (decoded lines))))]"
proof (induction lines n rule: yield_rows.induct)
  case (1 n) show ?case by simp
next
  case (2 lines n) then show ?case by simp
next
  case (3 e lines n) then show ?case by auto
next
  case (4 row lines n) then show ?case by simp
qed

lemma yield_rows_abort:
  "(\<forall>e. Aborts e \<notin> set before) \<Longrightarrow>
   yield_rows (before @ Aborts e # after) n = map Yield (decoded before) @ [Raise e]"
proof (induction before n rule: yield_rows.induct)
  case (1 n) show ?case by simp
next
  case (2 lines n) then show ?case by simp
next
  case (3 e' lines n) then show ?case by auto
next
  case (4 row lines n) then show ?case by simp
qed


lemma reader_eq:
  assumes "read_json_lines w (path_join d ''lang-8-20111007-L1-v2.dat'') = Inr lines"
    and "\<forall>e. Aborts e \<notin> set lines"
  shows "yield_lang8_raw_dicts w d =
     Effect (Open_read (path_join d ''lang-8-20111007-L1-v2.dat'')) #
     map Yield (decoded lines) @ [Effect (Print (Raw_documents_read (length (decoded lines))))]"
  using assms by (simp add: yield_lang8_raw_dicts_def yield_rows_eq)


lemma build_index_ok:
  "map target_entry lines = map Inr entries \<Longrightarrow> build_index lines idx = Inr (index_of entries idx)"
proof (induction lines arbitrary: entries idx)
  case Nil then show ?case by (simp add: index_of_def)
next
  case (Cons l ls)
  then obtain e es where "entries = e # es" "target_entry l = Inr e" "map target_entry ls = map Inr es"
    by (cases entries) auto
  with Cons.IH[of es] show ?case by (cases e) (simp add: index_of_def)
qed

lemma build_index_fail:
  "l \<in> set lines \<Longrightarrow> target_entry l = Inl e \<Longrightarrow> \<exists>e'. build_index lines idx = Inl e'"
proof (induction lines arbitrary: idx)
  case Nil then show ?case by simp
next
  case (Cons a ls)
  show ?case
  proof (cases "target_entry a")
    case (Inl x) then show ?thesis by simp
  next
    case (Inr p)
    with Cons.prems have "l \<in> set ls" by auto
    from Cons.IH[OF this Cons.prems(2)] Inr show ?thesis by (cases p) simp
  qed
qed

lemma get_append_target:
  "get (append_target k t idx) k' = (if k' = k then get idx k @ [t] else get idx k')"
  by (simp add: get_def append_target_def update_conv')

lemma get_index_of:
  "get (index_of entries idx) k = get idx k @ map snd (filter (\<lambda>e. fst e = k) entries)"
  by (induction entries arbitrary: idx) (auto simp: index_of_def get_append_target)

lemma distinct_append_target:
  "distinct (map fst idx) \<Longrightarrow> distinct (map fst (append_target k t idx))"
  by (simp add: append_target_def distinct_update)

lemma distinct_index_of:
  "distinct (map fst idx) \<Longrightarrow> distinct (map fst (index_of entries idx))"
  by (induction entries arbitrary: idx) (auto simp: index_of_def distinct_append_target)

lemma num_targets_append_target:
  "num_targets_of (append_target k t idx) = Suc (num_targets_of idx)"
  by (induction idx) (auto simp: num_targets_of_def append_target_def get_def)

lemma num_targets_index_of:
  "num_targets_of (index_of entries idx) = num_targets_of idx + length entries"
  by (induction entries arbitrary: idx) (auto simp: index_of_def num_targets_append_target)

lemma num_targets_sum_keys:
  assumes "distinct (map fst idx)"
  shows "num_targets_of idx = (\<Sum>k\<in>set (map fst idx). length (get idx k))"
proof -
  have "map (\<lambda>kv. length (snd kv)) idx = map (\<lambda>k. length (get idx k)) (map fst idx)"
    using assms by (auto simp: get_def)
  then have "num_targets_of idx = sum_list (map (\<lambda>k. length (get idx k)) (map fst idx))"
    unfolding num_targets_of_def by (rule arg_cong)
  also have "\<dots> = (\<Sum>k\<in>set (map fst idx). length (get idx k))"
    using assms by (rule sum_list_distinct_conv_sum_set)
  finally show ?thesis .
qed

lemma num_targets_Nil: "num_targets_of [] = 0"
  by (simp add: num_targets_of_def)

lemma builder_ok:
  assumes "read_text w path = Inr text"
    and "map target_entry (splitlines text) = map Inr entries"
  shows "read_clang8_targets w path =
    ([Open_read path, Print (Targets_read (length entries))],
     Inr (index_of entries [], length entries))"
  using assms
  by (simp add: read_clang8_targets_def build_index_ok num_targets_index_of num_targets_Nil Let_def)

subsection \<open>The loops of the join\<close>

lemma join_row_fields:
  "fields_of_row row = Some (key, sources) \<Longrightarrow> join_row idx row = emit sources (get idx key)"
  by (auto simp: fields_of_row_def join_row_def split: sum.splits prod.splits)

lemma join_loop_rows:
  "yielded (join_loop idx n acts) = fst (join_rows idx (yielded acts)) \<and>
   raised (join_loop idx n acts) =
     (case snd (join_rows idx (yielded acts)) of None \<Rightarrow> raised acts | Some e \<Rightarrow> Some e)"
proof (induction idx n acts rule: join_loop.induct)
  case (1 idx n) show ?case by simp
next
  case (2 idx n ev as) then show ?case by (simp split: option.splits)
next
  case (3 idx n e as) then show ?case by simp
next
  case (4 idx n row as)
  obtain ps r where jr: "join_row idx row = (ps, r)" by (cases "join_row idx row")
  show ?case
  proof (cases r)
    case None
    with jr 4 show ?thesis by (simp split: prod.splits option.splits)
  next
    case (Some e)
    with jr show ?thesis by simp
  qed
qed

lemma join_run:
  assumes "read_clang8_targets w p = (evs, Inr (idx, n))"
  shows "yielded (yield_clang8_source_target_pairs w p d) =
           fst (join_rows idx (yielded (yield_lang8_raw_dicts w d)))"
    and "raised (yield_clang8_source_target_pairs w p d) =
           (case snd (join_rows idx (yielded (yield_lang8_raw_dicts w d))) of
              None \<Rightarrow> raised (yield_lang8_raw_dicts w d) | Some e \<Rightarrow> Some e)"
  using join_loop_rows[of idx 0 "yield_lang8_raw_dicts w d"] assms
  by (simp_all add: yield_clang8_source_target_pairs_def)






subsection \<open>Lines of the targets file\<close>

lemma target_entry_wrong_count:
  "length (split TAB line) \<noteq> 5 \<Longrightarrow> target_entry line = Inl (ValueError Unpack_mismatch)"
  by (auto simp: target_entry_def split: list.splits)

lemma target_entry_five_fields:
  assumes "length (split TAB line) = 5"
    and "\<forall>field\<in>set (take 3 (split TAB line)). int_of_text field \<noteq> None"
  shows "\<exists>e. target_entry line = Inr e"
proof -
  from assms(1) obtain a b c d e where s: "split TAB line = [a, b, c, d, e]"
    by (auto simp: length_Suc_conv eval_nat_numeral)
  with assms(2) obtain j k n where "int_of_text a = Some j" "int_of_text b = Some k" "int_of_text c = Some n"
    by auto
  with s show ?thesis by (simp add: target_entry_def)
qed

lemma all_entries:
  "(\<forall>l\<in>set lines. \<exists>e. target_entry l = Inr e) \<Longrightarrow> \<exists>entries. map target_entry lines = map Inr entries"
proof (induction lines)
  case Nil then show ?case by simp
next
  case (Cons l ls)
  then obtain e es where "target_entry l = Inr e" "map target_entry ls = map Inr es" by auto
  then have "map target_entry (l # ls) = map Inr (e # es)" by simp
  then show ?case by blast
qed

subsection \<open>The join on files\<close>

lemma get_Nil: "get [] k = []"
  by (simp add: get_def)

lemma expected_due: "expected (index_of entries []) records = due entries records"
  by (simp add: expected_def due_def get_index_of get_Nil comp_def)

lemma join_of_stream:
  assumes "read_text w p = Inr text"
    and "map target_entry (splitlines text) = map Inr entries"
  shows "yielded (yield_clang8_source_target_pairs w p d) =
           fst (join_rows (index_of entries []) (yielded (yield_lang8_raw_dicts w d)))"
    and "raised (yield_clang8_source_target_pairs w p d) =
           (case snd (join_rows (index_of entries []) (yielded (yield_lang8_raw_dicts w d))) of
              None \<Rightarrow> raised (yield_lang8_raw_dicts w d) | Some e \<Rightarrow> Some e)"
  using join_run[OF builder_ok[OF assms(1,2)]] by simp_all

lemma join_of_files:
  assumes "read_text w p = Inr text"
    and "map target_entry (splitlines text) = map Inr entries"
    and "read_json_lines w (path_join d ''lang-8-20111007-L1-v2.dat'') = Inr lines"
    and "\<forall>e. Aborts e \<notin> set lines"
  shows "yielded (yield_clang8_source_target_pairs w p d) =
           fst (join_rows (index_of entries []) (decoded lines))"
    and "raised (yield_clang8_source_target_pairs w p d) =
           snd (join_rows (index_of entries []) (decoded lines))"
proof -
  have y: "yielded (yield_lang8_raw_dicts w d) = decoded lines"
    and r: "raised (yield_lang8_raw_dicts w d) = None"
    by (simp_all add: reader_eq[OF assms(3,4)])
  show "yielded (yield_clang8_source_target_pairs w p d) =
           fst (join_rows (index_of entries []) (decoded lines))"
    using join_of_stream(1)[OF assms(1,2), of d] y by simp
  show "raised (yield_clang8_source_target_pairs w p d) =
           snd (join_rows (index_of entries []) (decoded lines))"
    using join_of_stream(2)[OF assms(1,2), of d] y r by (simp split: option.splits)
qed

subsection \<open>The examples, evaluated\<close>

lemma example_entries:
  "map target_entry (splitlines example_targets) =
     map Inr [((1, 2), (1, ''x'')), ((1, 2), (0, ''y'')), ((9, 9), (0, ''z''))]"
  by (simp add: example_targets_def splitlines_def split_def is_line_boundary_def target_entry_def
        int_of_text_def strip_def is_space_def digits_def int_max_str_digits_def is_digit_def digit_value_def)

lemma example_fields:
  "fields_of_row example_row = Some ((1, 2), JArray [JString ''a'', JString ''b''])"
  by (simp add: example_row_def fields_of_row_def unpack_row_def raw_ids_def)

lemma example_join_row:
  "join_row (index_of [((1, 2), (1, ''x'')), ((1, 2), (0, ''y'')), ((9, 9), (0, ''z''))] []) example_row =
     ([(JString ''b'', JString ''x''), (JString ''a'', JString ''y'')], None)"
  by (simp add: join_row_fields[OF example_fields] get_index_of get_Nil item_def)

subsection \<open>Counting the pairs\<close>

lemma length_due:
  "length (due entries records) = (\<Sum>r\<leftarrow>records. length (filter (\<lambda>e. fst e = fst r) entries))"
  by (simp add: due_def length_concat comp_def)

lemma count_keys_distinct:
  "distinct ks \<Longrightarrow>
   (\<Sum>k\<leftarrow>ks. length (filter (\<lambda>e. fst e = k) es)) = length (filter (\<lambda>e. fst e \<in> set ks) es)"
proof (induction ks)
  case Nil then show ?case by simp
next
  case (Cons k ks)
  have "length (filter (\<lambda>e. fst e = k \<or> fst e \<in> set ks) es) =
          length (filter (\<lambda>e. fst e = k) es) + length (filter (\<lambda>e. fst e \<in> set ks) es)"
    using Cons.prems by (induction es) auto
  with Cons show ?case by simp
qed

lemma length_filter_eq_iff:
  "length (filter P xs) = length xs \<longleftrightarrow> (\<forall>x\<in>set xs. P x)"
proof (induction xs)
  case Nil then show ?case by simp
next
  case (Cons x xs)
  have "length (filter P xs) \<noteq> Suc (length xs)"
    by (metis length_filter_le Suc_n_not_le_n)
  with Cons show ?case by auto
qed

lemma fixed_world_files:
  "read_text (fixed_world text lines) path = Inr text"
  "read_json_lines (fixed_world text lines) path = Inr lines"
  "create_file (fixed_world text lines) path = None"
  by (simp_all add: fixed_world_def)

lemma example_index:
  "index_of [((1, 2), (1, ''x'')), ((1, 2), (0, ''y'')), ((9, 9), (0, ''z''))] [] =
     [((1, 2), [(1, ''x''), (0, ''y'')]), ((9, 9), [(0, ''z'')])]"
  by (simp add: index_of_def append_target_def get_def)


lemma matched_sum:
  "length (filter (\<lambda>e. fst e \<in> set ks) es) = (\<Sum>k\<in>set ks. length (filter (\<lambda>e. fst e = k) es))"
proof -
  have "(\<Sum>k\<in>set (remdups ks). length (filter (\<lambda>e. fst e = k) es)) =
          (\<Sum>k\<leftarrow>remdups ks. length (filter (\<lambda>e. fst e = k) es))"
    by (rule sum_list_distinct_conv_sum_set[symmetric]) simp
  also have "\<dots> = length (filter (\<lambda>e. fst e \<in> set (remdups ks)) es)"
    by (rule count_keys_distinct) simp
  finally show ?thesis by simp
qed


subsection \<open>Tokenizing and writing\<close>

lemma yielded_map_fun: "yielded (map (\<lambda>p. Yield (f p)) ps) = map f ps"
  by (induction ps) auto

lemma raised_map_fun: "raised (map (\<lambda>p. Yield (f p)) ps) = None"
  by (induction ps) auto

lemma tokenize_loop_texts:
  "tokenize_loop (pipe nlp (map (\<lambda>p. JString (fst p)) ps)) (pipe nlp (map (\<lambda>p. JString (snd p)) ps)) =
     map (\<lambda>p. Yield (JString (join_spaces (nlp (fst p))), JString (join_spaces (nlp (snd p))))) ps"
  by (induction ps) (auto simp: pipe_def)

lemma clean_text:
  "clean_spaces (JString text) =
     Inr (sanitized text)"
  by (simp add: replace_def sanitized_def)

lemma count_clean:
  "c = TAB \<or> c = LF \<or> c = CR \<Longrightarrow>
   count_list (sanitized text) c = 0"
  by (induction "text") (auto simp: sanitized_def)

lemma write_loop_texts:
  "raised pairs = None \<Longrightarrow>
   yielded pairs = map (\<lambda>p. (JString (fst p), JString (snd p))) texts \<Longrightarrow>
   write_loop pairs =
     (effects pairs,
      concat (map (\<lambda>p. sanitized (fst p) @
                        TAB # sanitized (snd p) @
                        [LF]) texts),
      None)"
proof (induction pairs arbitrary: texts rule: write_loop.induct)
  case 1 then show ?case by simp
next
  case (2 ev as) then show ?case by simp
next
  case (3 e as) then show ?case by simp
next
  case (4 source target as)
  from "4.prems"(2) obtain t ts where texts: "texts = t # ts"
    and st: "source = JString (fst t)" "target = JString (snd t)"
    and rest: "yielded as = map (\<lambda>p. (JString (fst p), JString (snd p))) ts"
    by (cases texts) auto
  from "4.prems"(1) have r: "raised as = None" by simp
  have c1: "clean_spaces source =
              Inr (sanitized (fst t))"
    and c2: "clean_spaces target =
              Inr (sanitized (snd t))"
    by (simp_all only: st clean_text)
  from "4.IH"[OF c1 c2 r rest] show ?case
    by (simp only: write_loop.simps c1 c2 texts sum.case prod.case effects.simps
          list.map concat.simps append_assoc)
qed

subsection \<open>The scenario\<close>

lemma scenario_entries:
  "map target_entry (splitlines scenario_targets) = map Inr [((1, 2), (0, ''Hello world.''))]"
  by (simp add: scenario_targets_def splitlines_def split_def is_line_boundary_def target_entry_def
        int_of_text_def strip_def is_space_def digits_def int_max_str_digits_def is_digit_def digit_value_def)

lemma array_row_fields:
  "fields_of_row (JArray (journal_id # sentence_id # middle @ [sources, last_field])) =
     (case raw_ids journal_id sentence_id of Inl e \<Rightarrow> None | Inr key \<Rightarrow> Some (key, sources))"
  by (simp add: fields_of_row_def unpack_row_def nth_append)

lemma write_loop_raised:
  "yielded as = [] \<Longrightarrow> raised as = Some e \<Longrightarrow> write_loop as = (effects as, [], Some e)"
  by (induction as rule: write_loop.induct) auto

lemma prepare_untokenized:
  "model_path_of language = Inr model_path \<Longrightarrow>
   prepare_clang8 w language clang8_targets_dir lang8_dir output_dir False =
     write_source_target_pairs_to_tsv w
       (yield_clang8_source_target_pairs w
          (path_join clang8_targets_dir (''clang8_'' @ language @ ''.detokenized.tsv'')) lang8_dir)
       (output_path_of output_dir language [])"
  by (simp only: prepare_clang8_def Let_def sum.case if_False)

subsection \<open>The pairs of a run, exactly\<close>

lemma emit_exact:
  "emit src ts = (ps, r) \<Longrightarrow>
   list_all2 (\<lambda>p st. subscript (fst st) (fst (snd st)) = Inr (fst p) \<and> snd p = JString (snd (snd st)))
     ps (takeWhile in_range (map (Pair src) ts)) \<and>
   (r = None \<longleftrightarrow> list_all in_range (map (Pair src) ts))"
  by (induction ts arbitrary: ps r) (auto simp: in_range_def split: sum.splits prod.splits)

lemma join_rows_exact:
  "map fields_of_row rows = map Some recs \<Longrightarrow> join_rows idx rows = (ps, r) \<Longrightarrow>
   list_all2 (\<lambda>p st. subscript (fst st) (fst (snd st)) = Inr (fst p) \<and> snd p = JString (snd (snd st)))
     ps (takeWhile in_range (expected idx recs)) \<and>
   (r = None \<longleftrightarrow> list_all in_range (expected idx recs))"
proof (induction rows arbitrary: recs ps r)
  case Nil then show ?case by (simp add: expected_def)
next
  case (Cons row rows)
  from Cons.prems(1) obtain key src recs' where recs: "recs = (key, src) # recs'"
    and f: "fields_of_row row = Some (key, src)" and rest: "map fields_of_row rows = map Some recs'"
    by (cases recs) auto
  let ?R = "\<lambda>p st. subscript (fst st) (fst (snd st)) = Inr (fst p) \<and> snd p = JString (snd (snd st))"
  let ?ex = "map (Pair src) (get idx key)"
  have ex: "expected idx recs = ?ex @ expected idx recs'"
    by (simp add: recs expected_def)
  obtain qs r1 where e: "emit src (get idx key) = (qs, r1)" by (cases "emit src (get idx key)")
  have jr: "join_row idx row = (qs, r1)" using join_row_fields[OF f] e by simp
  from emit_exact[OF e] have a1: "list_all2 ?R qs (takeWhile in_range ?ex)"
    and i1: "r1 = None \<longleftrightarrow> list_all in_range ?ex" by auto
  show ?case
  proof (cases r1)
    case (Some err)
    with jr Cons.prems(2) have ps: "ps = qs" and r: "r = Some err" by auto
    from Some i1 have "\<not> list_all in_range ?ex" by simp
    then obtain x where x: "x \<in> set ?ex" "\<not> in_range x" by (auto simp: list_all_iff)
    then have "takeWhile in_range (?ex @ expected idx recs') = takeWhile in_range ?ex"
      by (rule takeWhile_append1)
    moreover have "\<not> list_all in_range (?ex @ expected idx recs')"
      using x by (auto simp: list_all_iff)
    ultimately show ?thesis using a1 by (simp add: ps r ex)
  next
    case None
    obtain qs' r' where jrs: "join_rows idx rows = (qs', r')" by (cases "join_rows idx rows")
    with jr None Cons.prems(2) have ps: "ps = qs @ qs'" and r: "r = r'" by auto
    from None i1 have all: "list_all in_range ?ex" by simp
    then have tw: "takeWhile in_range (?ex @ expected idx recs') =
                     ?ex @ takeWhile in_range (expected idx recs')"
      by (intro takeWhile_append2) (auto simp: list_all_iff)
    from all have "takeWhile in_range ?ex = ?ex"
      by (simp add: takeWhile_eq_all_conv list_all_iff)
    with a1 have a1': "list_all2 ?R qs ?ex" by simp
    from Cons.IH[OF rest jrs] have ih1: "list_all2 ?R qs' (takeWhile in_range (expected idx recs'))"
      and ih2: "r' = None \<longleftrightarrow> list_all in_range (expected idx recs')" by auto
    have "list_all2 ?R ps (takeWhile in_range (expected idx recs))"
      unfolding ps ex tw using a1' ih1 by (rule list_all2_appendI)
    moreover have "r = None \<longleftrightarrow> list_all in_range (expected idx recs)"
      using ih2 all by (simp add: r ex)
    ultimately show ?thesis by blast
  qed
qed

lemma single_keys_sum:
  assumes "\<forall>e\<in>set es. count_list ks (fst e) \<le> 1"
  shows "(\<Sum>k\<in>set ks. count_list ks k * length (filter (\<lambda>e. fst e = k) es)) =
         (\<Sum>k\<in>set ks. length (filter (\<lambda>e. fst e = k) es))"
proof (rule sum.cong[OF refl])
  fix k assume k: "k \<in> set ks"
  show "count_list ks k * length (filter (\<lambda>e. fst e = k) es) = length (filter (\<lambda>e. fst e = k) es)"
  proof (cases "filter (\<lambda>e. fst e = k) es = []")
    case True then show ?thesis by simp
  next
    case False
    then obtain e where "e \<in> set es" "fst e = k" by (auto simp: filter_empty_conv)
    with assms have "count_list ks k \<le> 1" by auto
    moreover from k have "count_list ks k \<noteq> 0" by (simp add: count_list_0_iff)
    ultimately have "count_list ks k = 1" by simp
    then show ?thesis by simp
  qed
qed

subsection \<open>The claims\<close>

text \<open>
  C7 (amended). Let the corpus file open. A line on which \<^verbatim>\<open>json.loads\<close> raises
  \<^verbatim>\<open>JSONDecodeError\<close> is passed over: nothing is raised for it, it is not counted, and
  reading goes on with the next line. If no line raises another error, the reader
  yields exactly the rows that decode, in the order of their lines, and then prints
  their number. A line on which reading or decoding raises another error ends the
  reader with that error, after the rows that decode before it have been yielded, and
  no number is printed.
\<close>

theorem reader_skips_malformed_lines:
  assumes "read_json_lines w (path_join lang8_raw_dir ''lang-8-20111007-L1-v2.dat'') = Inr lines"
  shows "((\<forall>e. Aborts e \<notin> set lines) \<longrightarrow>
            yield_lang8_raw_dicts w lang8_raw_dir =
              Effect (Open_read (path_join lang8_raw_dir ''lang-8-20111007-L1-v2.dat'')) #
              map Yield (decoded lines) @
              [Effect (Print (Raw_documents_read (length (decoded lines))))] \<and>
            yielded (yield_lang8_raw_dicts w lang8_raw_dir) = decoded lines \<and>
            raised (yield_lang8_raw_dicts w lang8_raw_dir) = None) \<and>
         (\<forall>before e after.
            lines = before @ Aborts e # after \<and> (\<forall>e'. Aborts e' \<notin> set before) \<longrightarrow>
            yield_lang8_raw_dicts w lang8_raw_dir =
              Effect (Open_read (path_join lang8_raw_dir ''lang-8-20111007-L1-v2.dat'')) #
              map Yield (decoded before) @ [Raise e])"
proof (intro conjI impI allI)
  assume na: "\<forall>e. Aborts e \<notin> set lines"
  show r: "yield_lang8_raw_dicts w lang8_raw_dir =
           Effect (Open_read (path_join lang8_raw_dir ''lang-8-20111007-L1-v2.dat'')) #
           map Yield (decoded lines) @
           [Effect (Print (Raw_documents_read (length (decoded lines))))]"
    using assms na by (rule reader_eq)
  show "yielded (yield_lang8_raw_dicts w lang8_raw_dir) = decoded lines"
    and "raised (yield_lang8_raw_dicts w lang8_raw_dir) = None"
    by (simp_all add: r)
next
  fix before e after
  assume "lines = before @ Aborts e # after \<and> (\<forall>e'. Aborts e' \<notin> set before)"
  then show "yield_lang8_raw_dicts w lang8_raw_dir =
              Effect (Open_read (path_join lang8_raw_dir ''lang-8-20111007-L1-v2.dat'')) #
              map Yield (decoded before) @ [Raise e]"
    using assms by (simp add: yield_lang8_raw_dicts_def yield_rows_abort)
qed

theorem reader_skips_malformed_lines_witness:
  "yield_lang8_raw_dicts (fixed_world [] [Decodes (JInt 1), Malformed, Decodes JNull]) ''lang8'' =
     [Effect (Open_read ''lang8/lang-8-20111007-L1-v2.dat''), Yield (JInt 1), Yield JNull,
      Effect (Print (Raw_documents_read 2))] \<and>
   yield_lang8_raw_dicts
     (fixed_world [] [Decodes (JInt 1), Malformed, Aborts RecursionError, Decodes JNull]) ''lang8'' =
     [Effect (Open_read ''lang8/lang-8-20111007-L1-v2.dat''), Yield (JInt 1), Raise RecursionError]"
proof -
  let ?l1 = "[Decodes (JInt 1), Malformed, Decodes JNull]"
  let ?l2 = "[Decodes (JInt 1), Malformed, Aborts RecursionError, Decodes JNull]"
  have c1: "read_json_lines (fixed_world [] ?l1) (path_join ''lang8'' ''lang-8-20111007-L1-v2.dat'') =
              Inr ?l1"
    and c2: "read_json_lines (fixed_world [] ?l2) (path_join ''lang8'' ''lang-8-20111007-L1-v2.dat'') =
              Inr ?l2"
    by (simp_all only: fixed_world_files)
  have s: "?l2 = [Decodes (JInt 1), Malformed] @ Aborts RecursionError # [Decodes JNull] \<and>
           (\<forall>e'. Aborts e' \<notin> set [Decodes (JInt 1), Malformed])"
    by simp
  have p: "path_join ''lang8'' ''lang-8-20111007-L1-v2.dat'' = ''lang8/lang-8-20111007-L1-v2.dat''"
    by (simp add: path_join_def)
  from reader_skips_malformed_lines[OF c1] have
    "yield_lang8_raw_dicts (fixed_world [] ?l1) ''lang8'' =
       [Effect (Open_read ''lang8/lang-8-20111007-L1-v2.dat''), Yield (JInt 1), Yield JNull,
        Effect (Print (Raw_documents_read 2))]"
    by (simp add: p)
  moreover from reader_skips_malformed_lines[OF c2] s have
    "yield_lang8_raw_dicts (fixed_world [] ?l2) ''lang8'' =
       Effect (Open_read (path_join ''lang8'' ''lang-8-20111007-L1-v2.dat'')) #
       map Yield (decoded [Decodes (JInt 1), Malformed]) @ [Raise RecursionError]"
    by blast
  ultimately show ?thesis by (simp add: p)
qed

text \<open>
  C7 as stated fails: \<^verbatim>\<open>JSONDecodeError\<close> is the one error the reader catches. On a
  second line that does not parse because its brackets are nested deeper than the
  interpreter allows, \<^verbatim>\<open>json.loads\<close> raises \<^verbatim>\<open>RecursionError\<close>: the reader ends
  with that error, and the third line, which decodes, is never yielded.
\<close>

theorem reader_counterexample:
  "raised (yield_lang8_raw_dicts
             (fixed_world [] [Decodes (JInt 1), Aborts RecursionError, Decodes JNull]) ''lang8'') =
     Some RecursionError \<and>
   yielded (yield_lang8_raw_dicts
              (fixed_world [] [Decodes (JInt 1), Aborts RecursionError, Decodes JNull]) ''lang8'') =
     [JInt 1]"
  by (simp add: yield_lang8_raw_dicts_def fixed_world_def)

text \<open>
  C6 (amended). Given the text of the targets file, with its lines as \<^verbatim>\<open>splitlines\<close>
  delimits them: if some line does not have exactly five tab-separated fields, the
  builder ends with an error and returns no index. If every line has exactly five fields
  and \<^verbatim>\<open>int\<close> accepts the first three fields of every line, the builder returns the
  index together with the total number of entries, which is the sum of the lengths of
  the lists of the keys, and the number of lines.
\<close>

theorem builder_fails_or_counts:
  assumes "read_text w path = Inr text"
  shows "((\<exists>line\<in>set (splitlines text). length (split TAB line) \<noteq> 5) \<longrightarrow>
            (\<exists>e. snd (read_clang8_targets w path) = Inl e)) \<and>
         ((\<forall>line\<in>set (splitlines text).
              length (split TAB line) = 5 \<and>
              (\<forall>field\<in>set (take 3 (split TAB line)). int_of_text field \<noteq> None)) \<longrightarrow>
            (\<exists>ids_2_targets.
               snd (read_clang8_targets w path) = Inr (ids_2_targets, length (splitlines text)) \<and>
               distinct (map fst ids_2_targets) \<and>
               length (splitlines text) =
                 (\<Sum>key\<in>set (map fst ids_2_targets). length (get ids_2_targets key))))"
proof (intro conjI impI)
  assume "\<exists>line\<in>set (splitlines text). length (split TAB line) \<noteq> 5"
  then obtain line where "line \<in> set (splitlines text)"
    and "target_entry line = Inl (ValueError Unpack_mismatch)"
    using target_entry_wrong_count by blast
  from build_index_fail[OF this] obtain e where "build_index (splitlines text) [] = Inl e"
    by blast
  with assms show "\<exists>e. snd (read_clang8_targets w path) = Inl e"
    by (simp add: read_clang8_targets_def)
next
  assume "\<forall>line\<in>set (splitlines text).
            length (split TAB line) = 5 \<and>
            (\<forall>field\<in>set (take 3 (split TAB line)). int_of_text field \<noteq> None)"
  then have "\<forall>l\<in>set (splitlines text). \<exists>e. target_entry l = Inr e"
    using target_entry_five_fields by blast
  from all_entries[OF this] obtain entries
    where entries: "map target_entry (splitlines text) = map Inr entries" by blast
  then have len: "length (splitlines text) = length entries"
    by (metis length_map)
  let ?idx = "index_of entries []"
  have d: "distinct (map fst ?idx)" by (simp add: distinct_index_of)
  have "num_targets_of ?idx = length entries"
    by (simp add: num_targets_index_of num_targets_Nil)
  with num_targets_sum_keys[OF d]
  have "length entries = (\<Sum>key\<in>set (map fst ?idx). length (get ?idx key))" by simp
  with builder_ok[OF assms entries] d len
  show "\<exists>ids_2_targets.
          snd (read_clang8_targets w path) = Inr (ids_2_targets, length (splitlines text)) \<and>
          distinct (map fst ids_2_targets) \<and>
          length (splitlines text) =
            (\<Sum>key\<in>set (map fst ids_2_targets). length (get ids_2_targets key))"
    by (intro exI[of _ ?idx]) simp
qed

theorem builder_fails_or_counts_witness:
  "(\<exists>e. snd (read_clang8_targets (fixed_world ''1'' []) ''targets.tsv'') = Inl e) \<and>
   (\<exists>ids_2_targets.
      snd (read_clang8_targets
             (fixed_world [CHR ''1'', TAB, CHR ''2'', TAB, CHR ''0'', TAB, CHR ''-'', TAB, CHR ''t''] [])
             ''targets.tsv'') = Inr (ids_2_targets, 1))"
  using builder_fails_or_counts [of "fixed_world ''1'' []" "''targets.tsv''" "''1''"]
    builder_fails_or_counts
      [of "fixed_world [CHR ''1'', TAB, CHR ''2'', TAB, CHR ''0'', TAB, CHR ''-'', TAB, CHR ''t''] []"
          "''targets.tsv''" "[CHR ''1'', TAB, CHR ''2'', TAB, CHR ''0'', TAB, CHR ''-'', TAB, CHR ''t'']"]
  by (simp add: fixed_world_def splitlines_def split_def is_line_boundary_def int_of_text_def strip_def
        is_space_def digits_def int_max_str_digits_def is_digit_def digit_value_def) blast

text \<open>
  C6 as stated fails: the one line of this targets file has exactly five fields, but its
  first field is no integer, and the builder ends with the error of \<^verbatim>\<open>int\<close>.
\<close>

theorem builder_counterexample:
  "splitlines [CHR ''x'', TAB, CHR ''2'', TAB, CHR ''0'', TAB, CHR ''-'', TAB, CHR ''t''] =
     [[CHR ''x'', TAB, CHR ''2'', TAB, CHR ''0'', TAB, CHR ''-'', TAB, CHR ''t'']] \<and>
   length (split TAB [CHR ''x'', TAB, CHR ''2'', TAB, CHR ''0'', TAB, CHR ''-'', TAB, CHR ''t'']) = 5 \<and>
   snd (read_clang8_targets
          (fixed_world [CHR ''x'', TAB, CHR ''2'', TAB, CHR ''0'', TAB, CHR ''-'', TAB, CHR ''t''] [])
          ''targets.tsv'') = Inl (ValueError Invalid_literal)"
  by (simp add: fixed_world_def read_clang8_targets_def target_entry_def splitlines_def split_def
        is_line_boundary_def int_of_text_def strip_def
        is_space_def digits_def int_max_str_digits_def is_digit_def digit_value_def)

text \<open>
  C3. Let the targets file parse into the entries \<open>entries\<close> (in file order) and let
  every row the reader yields be a raw record (\<open>records\<close>, in stream order). The list
  \<open>due entries records\<close> holds what is due: record by record in the order of the stream,
  and for one record the entries of its key in the order of the targets file, whatever
  their sentence numbers. The join yields, one for one and in this order, a pair for
  every element of that list up to the first whose sentence number does not index the
  sentences of its record: the sentence at that number, and the entry's target. It ends
  without an error exactly if every sentence number does index its sentences and the
  reader raises nothing; then the pairs are those of the whole list.
\<close>

theorem join_order:
  assumes "read_text w clang8_path = Inr text"
    and "map target_entry (splitlines text) = map Inr entries"
    and "map fields_of_row (yielded (yield_lang8_raw_dicts w lang8_raw_dir)) = map Some records"
  shows "list_all2
           (\<lambda>pair (sources, sentence_number, target).
              subscript sources sentence_number = Inr (fst pair) \<and> snd pair = JString target)
           (yielded (yield_clang8_source_target_pairs w clang8_path lang8_raw_dir))
           (takeWhile in_range (due entries records)) \<and>
         (raised (yield_clang8_source_target_pairs w clang8_path lang8_raw_dir) = None \<longleftrightarrow>
            list_all in_range (due entries records) \<and>
            raised (yield_lang8_raw_dicts w lang8_raw_dir) = None)"
proof -
  let ?idx = "index_of entries []"
  let ?rows = "yielded (yield_lang8_raw_dicts w lang8_raw_dir)"
  let ?join = "yield_clang8_source_target_pairs w clang8_path lang8_raw_dir"
  obtain ps r where jr: "join_rows ?idx ?rows = (ps, r)"
    by (cases "join_rows ?idx ?rows")
  have y: "yielded ?join = ps"
    and e: "raised ?join =
              (case r of None \<Rightarrow> raised (yield_lang8_raw_dicts w lang8_raw_dir) | Some e \<Rightarrow> Some e)"
    using join_of_stream[OF assms(1,2), of lang8_raw_dir] jr by simp_all
  have R: "(\<lambda>pair (sources, sentence_number, target).
              subscript sources sentence_number = Inr (fst pair) \<and> snd pair = JString target) =
           (\<lambda>p st. subscript (fst st) (fst (snd st)) = Inr (fst p) \<and> snd p = JString (snd (snd st)))"
    by (auto simp: fun_eq_iff)
  from join_rows_exact[OF assms(3) jr]
  have a: "list_all2 (\<lambda>p st. subscript (fst st) (fst (snd st)) = Inr (fst p) \<and>
                          snd p = JString (snd (snd st))) ps (takeWhile in_range (due entries records))"
    and i: "r = None \<longleftrightarrow> list_all in_range (due entries records)"
    by (simp_all add: expected_due)
  have "raised ?join = None \<longleftrightarrow>
          list_all in_range (due entries records) \<and>
          raised (yield_lang8_raw_dicts w lang8_raw_dir) = None"
    unfolding e using i by (cases r) auto
  with a show ?thesis unfolding y R by blast
qed

theorem join_order_witness:
  "yielded (yield_clang8_source_target_pairs
              (fixed_world example_targets
                 [Decodes (JArray [JInt 9, JInt 9, JArray [JString ''c''], JNull]),
                  Malformed, Decodes example_row])
              ''targets.tsv'' ''lang8'') =
     [(JString ''c'', JString ''z''), (JString ''b'', JString ''x''), (JString ''a'', JString ''y'')] \<and>
   raised (yield_clang8_source_target_pairs
             (fixed_world example_targets
                [Decodes (JArray [JInt 9, JInt 9, JArray [JString ''c''], JNull]),
                 Malformed, Decodes example_row])
             ''targets.tsv'' ''lang8'') = None"
proof -
  let ?row = "JArray [JInt 9, JInt 9, JArray [JString ''c''], JNull]"
  let ?lines = "[Decodes ?row, Malformed, Decodes example_row]"
  let ?w = "fixed_world example_targets ?lines"
  let ?join = "yield_clang8_source_target_pairs ?w ''targets.tsv'' ''lang8''"
  let ?records = "[((9::int, 9::int), JArray [JString ''c'']),
                   ((1, 2), JArray [JString ''a'', JString ''b''])]"
  have t: "read_text ?w ''targets.tsv'' = Inr example_targets"
    and c: "read_json_lines ?w (path_join ''lang8'' ''lang-8-20111007-L1-v2.dat'') = Inr ?lines"
    by (simp_all only: fixed_world_files)
  have na: "\<forall>e. Aborts e \<notin> set ?lines" by simp
  have y: "yielded (yield_lang8_raw_dicts ?w ''lang8'') = [?row, example_row]"
    and r: "raised (yield_lang8_raw_dicts ?w ''lang8'') = None"
    by (simp_all add: reader_eq[OF c na])
  have f9: "fields_of_row ?row = Some ((9, 9), JArray [JString ''c''])"
    by (simp add: fields_of_row_def unpack_row_def raw_ids_def)
  have f: "map fields_of_row (yielded (yield_lang8_raw_dicts ?w ''lang8'')) = map Some ?records"
    by (simp add: y example_fields f9)
  have d: "due [((1, 2), (1, ''x'')), ((1, 2), (0, ''y'')), ((9, 9), (0, ''z''))] ?records =
             [(JArray [JString ''c''], (0, ''z'')),
              (JArray [JString ''a'', JString ''b''], (1, ''x'')),
              (JArray [JString ''a'', JString ''b''], (0, ''y''))]"
    by (simp add: due_def)
  have i: "list_all in_range
             [(JArray [JString ''c''], (0::int, ''z'')),
              (JArray [JString ''a'', JString ''b''], (1, ''x'')),
              (JArray [JString ''a'', JString ''b''], (0, ''y''))]"
    by (simp add: in_range_def item_def)
  note T = join_order[OF t example_entries f, unfolded d]
  from T i r have "raised ?join = None" by blast
  moreover from T i have "yielded ?join =
      [(JString ''c'', JString ''z''), (JString ''b'', JString ''x''), (JString ''a'', JString ''y'')]"
    by (auto simp: list_all2_Cons2 in_range_def item_def)
  ultimately show ?thesis by blast
qed

text \<open>
  C1 (amended). Let the targets file parse into the entries \<open>entries\<close> and let every row
  the reader yields be a raw record (\<open>records\<close>, in stream order). Let no key that has a
  target entry occur on more than one of these records, and let the sentence number of
  every entry whose key occurs on a record index the sentences of that record. Then the
  join raises nothing of its own: it ends as the reader ends, and a record whose key has
  no entry yields nothing and raises nothing. The number of pairs the join yields is the
  number of target entries whose key occurs on a record; the builder reports the total
  number of entries; the number of pairs is at most that total, and equal to it if and
  only if the key of every entry occurs on a record.
\<close>

theorem join_completeness:
  assumes "read_text w clang8_path = Inr text"
    and "map target_entry (splitlines text) = map Inr entries"
    and "map fields_of_row (yielded (yield_lang8_raw_dicts w lang8_raw_dir)) = map Some records"
    and "\<forall>e\<in>set entries. count_list (map fst records) (fst e) \<le> 1"
    and "list_all in_range (due entries records)"
  shows "raised (yield_clang8_source_target_pairs w clang8_path lang8_raw_dir) =
           raised (yield_lang8_raw_dicts w lang8_raw_dir) \<and>
         length (yielded (yield_clang8_source_target_pairs w clang8_path lang8_raw_dir)) =
           length (filter (\<lambda>e. fst e \<in> fst ` set records) entries) \<and>
         (\<exists>ids_2_targets.
            snd (read_clang8_targets w clang8_path) = Inr (ids_2_targets, length entries)) \<and>
         length (yielded (yield_clang8_source_target_pairs w clang8_path lang8_raw_dir)) \<le>
           length entries \<and>
         (length (yielded (yield_clang8_source_target_pairs w clang8_path lang8_raw_dir)) =
            length entries \<longleftrightarrow>
          (\<forall>e\<in>set entries. fst e \<in> fst ` set records))"
proof -
  let ?join = "yield_clang8_source_target_pairs w clang8_path lang8_raw_dir"
  let ?rows = "yielded (yield_lang8_raw_dicts w lang8_raw_dir)"
  let ?ks = "map fst records"
  let ?g = "\<lambda>k. length (filter (\<lambda>e. fst e = k) entries)"
  let ?matched = "filter (\<lambda>e. fst e \<in> fst ` set records) entries"
  obtain ps r where jr: "join_rows (index_of entries []) ?rows = (ps, r)"
    by (cases "join_rows (index_of entries []) ?rows")
  have y: "yielded ?join = ps"
    and e: "raised ?join =
              (case r of None \<Rightarrow> raised (yield_lang8_raw_dicts w lang8_raw_dir) | Some e \<Rightarrow> Some e)"
    using join_of_stream[OF assms(1,2), of lang8_raw_dir] jr by simp_all
  from join_rows_exact[OF assms(3) jr] assms(5)
  have rn: "r = None"
    and a: "list_all2 (\<lambda>p st. subscript (fst st) (fst (snd st)) = Inr (fst p) \<and>
                          snd p = JString (snd (snd st))) ps (takeWhile in_range (due entries records))"
    by (simp_all add: expected_due)
  have "takeWhile in_range (due entries records) = due entries records"
    using assms(5) by (simp add: takeWhile_eq_all_conv list_all_iff)
  with a have "length ps = length (due entries records)"
    by (auto dest: list_all2_lengthD)
  also have "\<dots> = (\<Sum>k\<leftarrow>?ks. ?g k)"
    by (simp add: length_due comp_def)
  also have "\<dots> = (\<Sum>k\<in>set ?ks. count_list ?ks k * ?g k)"
    by (rule sum_list_map_eq_sum_count)
  also have "\<dots> = (\<Sum>k\<in>set ?ks. ?g k)"
    using assms(4) by (rule single_keys_sum)
  also have "\<dots> = length (filter (\<lambda>e. fst e \<in> set ?ks) entries)"
    by (rule matched_sum[symmetric])
  finally have n: "length (yielded ?join) = length ?matched" using y by simp
  have q: "raised ?join = raised (yield_lang8_raw_dicts w lang8_raw_dir)"
    unfolding e rn by simp
  have b: "\<exists>ids_2_targets.
            snd (read_clang8_targets w clang8_path) = Inr (ids_2_targets, length entries)"
    using builder_ok[OF assms(1,2)] by simp
  have le: "length ?matched \<le> length entries" by simp
  have eq: "length ?matched = length entries \<longleftrightarrow> (\<forall>e\<in>set entries. fst e \<in> fst ` set records)"
    by (rule length_filter_eq_iff)
  have l2: "length (yielded ?join) \<le> length entries"
    using n le by (simp only:)
  have eq2: "length (yielded ?join) = length entries \<longleftrightarrow>
               (\<forall>e\<in>set entries. fst e \<in> fst ` set records)"
    using n eq by (simp only:)
  from q n b l2 eq2 show ?thesis by blast
qed

theorem join_completeness_witness:
  "raised (yield_clang8_source_target_pairs
             (fixed_world example_targets
                [Decodes example_row, Malformed,
                 Decodes (JArray [JInt 7, JInt 7, JArray [], JNull]),
                 Decodes (JArray [JInt 7, JInt 7, JArray [], JNull])])
             ''targets.tsv'' ''lang8'') = None \<and>
   length (yielded (yield_clang8_source_target_pairs
                      (fixed_world example_targets
                         [Decodes example_row, Malformed,
                          Decodes (JArray [JInt 7, JInt 7, JArray [], JNull]),
                          Decodes (JArray [JInt 7, JInt 7, JArray [], JNull])])
                      ''targets.tsv'' ''lang8'')) = 2 \<and>
   (\<exists>ids_2_targets.
      snd (read_clang8_targets
             (fixed_world example_targets
                [Decodes example_row, Malformed,
                 Decodes (JArray [JInt 7, JInt 7, JArray [], JNull]),
                 Decodes (JArray [JInt 7, JInt 7, JArray [], JNull])])
             ''targets.tsv'') = Inr (ids_2_targets, 3))"
proof -
  let ?row = "JArray [JInt 7, JInt 7, JArray [], JNull]"
  let ?lines = "[Decodes example_row, Malformed, Decodes ?row, Decodes ?row]"
  let ?w = "fixed_world example_targets ?lines"
  let ?entries = "[((1::int, 2::int), (1::int, ''x'')), ((1, 2), (0, ''y'')), ((9, 9), (0, ''z''))]"
  let ?records = "[((1::int, 2::int), JArray [JString ''a'', JString ''b'']),
                   ((7, 7), JArray []), ((7, 7), JArray [])]"
  have t: "read_text ?w ''targets.tsv'' = Inr example_targets"
    and c: "read_json_lines ?w (path_join ''lang8'' ''lang-8-20111007-L1-v2.dat'') = Inr ?lines"
    by (simp_all only: fixed_world_files)
  have na: "\<forall>e. Aborts e \<notin> set ?lines" by simp
  have y: "yielded (yield_lang8_raw_dicts ?w ''lang8'') = [example_row, ?row, ?row]"
    and r: "raised (yield_lang8_raw_dicts ?w ''lang8'') = None"
    by (simp_all add: reader_eq[OF c na])
  have f7: "fields_of_row ?row = Some ((7, 7), JArray [])"
    by (simp add: fields_of_row_def unpack_row_def raw_ids_def)
  have f: "map fields_of_row (yielded (yield_lang8_raw_dicts ?w ''lang8'')) = map Some ?records"
    by (simp add: y example_fields f7)
  have s: "\<forall>e\<in>set ?entries. count_list (map fst ?records) (fst e) \<le> 1"
    by simp
  have i: "list_all in_range (due ?entries ?records)"
    by (simp add: due_def in_range_def item_def)
  from join_completeness[OF t example_entries f s i] r show ?thesis
    by (simp add: eval_nat_numeral)
qed

text \<open>
  C1 as stated fails in two ways. Where a key that has entries occurs twice in the
  corpus: the example row joined twice with the example targets yields four pairs and
  no error, one more than the three entries that the builder reports, and two more than
  the two entries whose key occurs in the corpus. Where a sentence number does not index
  the sentences: with the one entry \<open>((1, 2), (5, x))\<close> and the example row, whose key is
  \<open>(1, 2)\<close> and which has two sentences, the join yields no pair and raises
  \<^verbatim>\<open>IndexError\<close>, although the key of the one entry occurs in the corpus.
\<close>

theorem join_completeness_counterexample:
  "(length (yielded (yield_clang8_source_target_pairs
                       (fixed_world example_targets [Decodes example_row, Decodes example_row])
                       ''targets.tsv'' ''lang8'')) = 4 \<and>
    raised (yield_clang8_source_target_pairs
              (fixed_world example_targets [Decodes example_row, Decodes example_row])
              ''targets.tsv'' ''lang8'') = None \<and>
    snd (read_clang8_targets
           (fixed_world example_targets [Decodes example_row, Decodes example_row])
           ''targets.tsv'') =
      Inr ([((1, 2), [(1, ''x''), (0, ''y'')]), ((9, 9), [(0, ''z'')])], 3)) \<and>
   (yield_clang8_source_target_pairs
      (fixed_world [CHR ''1'', TAB, CHR ''2'', TAB, CHR ''5'', TAB, CHR ''-'', TAB, CHR ''x'']
         [Decodes example_row])
      ''targets.tsv'' ''lang8'' =
      [Effect (Open_read ''targets.tsv''), Effect (Print (Targets_read 1)),
       Effect (Open_read (path_join ''lang8'' ''lang-8-20111007-L1-v2.dat'')),
       Raise IndexError] \<and>
    snd (read_clang8_targets
           (fixed_world [CHR ''1'', TAB, CHR ''2'', TAB, CHR ''5'', TAB, CHR ''-'', TAB, CHR ''x'']
              [Decodes example_row])
           ''targets.tsv'') = Inr ([((1, 2), [(5, ''x'')])], 1) \<and>
    fields_of_row example_row = Some ((1, 2), JArray [JString ''a'', JString ''b'']))"
proof -
  let ?w = "fixed_world example_targets [Decodes example_row, Decodes example_row]"
  let ?text = "[CHR ''1'', TAB, CHR ''2'', TAB, CHR ''5'', TAB, CHR ''-'', TAB, CHR ''x'']"
  let ?v = "fixed_world ?text [Decodes example_row]"
  have t: "read_text ?w ''targets.tsv'' = Inr example_targets"
    and c: "read_json_lines ?w (path_join ''lang8'' ''lang-8-20111007-L1-v2.dat'') =
              Inr [Decodes example_row, Decodes example_row]"
    by (simp_all only: fixed_world_files)
  have na: "\<forall>e. Aborts e \<notin> set [Decodes example_row, Decodes example_row]" by simp
  have one: "length (yielded (yield_clang8_source_target_pairs ?w ''targets.tsv'' ''lang8'')) = 4 \<and>
             raised (yield_clang8_source_target_pairs ?w ''targets.tsv'' ''lang8'') = None \<and>
             snd (read_clang8_targets ?w ''targets.tsv'') =
               Inr ([((1, 2), [(1, ''x''), (0, ''y'')]), ((9, 9), [(0, ''z'')])], 3)"
    using join_of_files[OF t example_entries c na] builder_ok[OF t example_entries]
    by (simp add: example_index example_join_row[unfolded example_index])
  have two: "yield_clang8_source_target_pairs ?v ''targets.tsv'' ''lang8'' =
               [Effect (Open_read ''targets.tsv''), Effect (Print (Targets_read 1)),
                Effect (Open_read (path_join ''lang8'' ''lang-8-20111007-L1-v2.dat'')),
                Raise IndexError] \<and>
             snd (read_clang8_targets ?v ''targets.tsv'') = Inr ([((1, 2), [(5, ''x'')])], 1)"
    by (simp add: fixed_world_def yield_clang8_source_target_pairs_def read_clang8_targets_def
          yield_lang8_raw_dicts_def Let_def num_targets_of_def join_row_def
          splitlines_def split_def is_line_boundary_def target_entry_def
          int_of_text_def strip_def is_space_def digits_def int_max_str_digits_def is_digit_def
          digit_value_def append_target_def get_def example_row_def unpack_row_def raw_ids_def
          item_def)
  from one two example_fields show ?thesis by blast
qed





text \<open>
  C4. For every segmentation function \<open>nlp\<close> and every generator that raises nothing and
  yields the pairs of texts \<open>texts\<close>, the tokenization stage raises nothing and yields
  exactly one pair for each pair of \<open>texts\<close>, in the same order: the pair at position
  \<open>i\<close> is the tokens of the source text at \<open>i\<close> joined by single spaces, and the
  tokens of the target text at \<open>i\<close> joined by single spaces.
\<close>

theorem tokenize_keeps_order:
  assumes "raised pairs = None"
    and "yielded pairs = map (\<lambda>(source, target). (JString source, JString target)) texts"
  shows "yielded (tokenize pairs nlp) =
           map (\<lambda>(source, target).
                  (JString (join_spaces (nlp source)), JString (join_spaces (nlp target)))) texts \<and>
         raised (tokenize pairs nlp) = None \<and>
         length (yielded (tokenize pairs nlp)) = length (yielded pairs) \<and>
         (\<forall>i<length texts.
            yielded (tokenize pairs nlp) ! i =
              (JString (join_spaces (nlp (fst (texts ! i)))),
               JString (join_spaces (nlp (snd (texts ! i))))))"
proof -
  have f: "map fst (yielded pairs) = map (\<lambda>p. JString (fst p)) texts"
    and s: "map snd (yielded pairs) = map (\<lambda>p. JString (snd p)) texts"
    by (simp_all add: assms(2) case_prod_beta)
  have t: "tokenize pairs nlp =
             map Effect (effects pairs) @ Effect (Print Tokenizing) #
             map (\<lambda>p. Yield (JString (join_spaces (nlp (fst p))),
                              JString (join_spaces (nlp (snd p))))) texts"
    by (simp add: tokenize_def assms(1) f s tokenize_loop_texts)
  have y: "yielded (tokenize pairs nlp) =
             map (\<lambda>p. (JString (join_spaces (nlp (fst p))),
                        JString (join_spaces (nlp (snd p))))) texts"
    unfolding t by (simp add: yielded_map_fun)
  have r: "raised (tokenize pairs nlp) = None"
    unfolding t by (simp add: raised_map_fun)
  from y r show ?thesis
    by (simp add: assms(2) case_prod_beta)
qed

theorem tokenize_keeps_order_witness:
  "yielded (tokenize [Effect (Print (Sources_mapped 2)),
                      Yield (JString ''a b'', JString ''c''),
                      Yield (JString ''d'', JString ''e f'')] (split SPACE)) =
     [(JString ''a b'', JString ''c''), (JString ''d'', JString ''e f'')]"
proof -
  have r: "raised [Effect (Print (Sources_mapped 2)),
                   Yield (JString ''a b'', JString ''c''),
                   Yield (JString ''d'', JString ''e f'')] = None"
    by simp
  have y: "yielded [Effect (Print (Sources_mapped 2)),
                    Yield (JString ''a b'', JString ''c''),
                    Yield (JString ''d'', JString ''e f'')] =
           map (\<lambda>(source, target). (JString source, JString target))
             [(''a b'', ''c''), (''d'', ''e f'')]"
    by simp
  from tokenize_keeps_order[OF r y, of "split SPACE"] show ?thesis
    by (simp add: split_def)
qed

text \<open>
  C5. For all texts \<open>source\<close> and \<open>target\<close>, cleaning replaces each tab, line feed and
  carriage return by one space. Where the output file can be created and the generator
  raises nothing and yields pairs of texts, the file written is, pair after pair, the
  cleaned source, one tab, the cleaned target and one line feed, and the writer ends
  without an error. Such a line holds exactly one tab, exactly one line feed, which is
  its last character, and no carriage return, whatever the texts held.
\<close>

theorem writer_sanitizes:
  assumes "create_file w output_path = None"
    and "raised pairs = None"
    and "yielded pairs = map (\<lambda>(source, target). (JString source, JString target)) texts"
  shows "clean_spaces (JString source) = Inr (sanitized source) \<and>
         written (write_source_target_pairs_to_tsv w pairs output_path) =
           Some (output_path,
                 concat (map (\<lambda>(source, target). sanitized source @ TAB # sanitized target @ [LF])
                           texts)) \<and>
         failure (write_source_target_pairs_to_tsv w pairs output_path) = None \<and>
         count_list (sanitized source @ TAB # sanitized target @ [LF]) TAB = 1 \<and>
         count_list (sanitized source @ TAB # sanitized target @ [LF]) LF = 1 \<and>
         count_list (sanitized source @ TAB # sanitized target @ [LF]) CR = 0 \<and>
         last (sanitized source @ TAB # sanitized target @ [LF]) = LF"
proof -
  have y: "yielded pairs = map (\<lambda>p. (JString (fst p), JString (snd p))) texts"
    by (simp add: assms(3) case_prod_beta)
  have "write_source_target_pairs_to_tsv w pairs output_path =
          \<lparr>events = Open_write output_path # effects pairs @ [Print (Wrote output_path)],
           written = Some (output_path,
             concat (map (\<lambda>p. sanitized (fst p) @ TAB # sanitized (snd p) @ [LF]) texts)),
           failure = None\<rparr>"
    by (simp add: write_source_target_pairs_to_tsv_def assms(1) write_loop_texts[OF assms(2) y])
  then have w: "written (write_source_target_pairs_to_tsv w pairs output_path) =
           Some (output_path,
                 concat (map (\<lambda>(source, target). sanitized source @ TAB # sanitized target @ [LF])
                           texts))"
    and f: "failure (write_source_target_pairs_to_tsv w pairs output_path) = None"
    by (simp_all add: case_prod_unfold)
  have c: "count_list (sanitized source @ TAB # sanitized target @ [LF]) TAB = 1"
    "count_list (sanitized source @ TAB # sanitized target @ [LF]) LF = 1"
    "count_list (sanitized source @ TAB # sanitized target @ [LF]) CR = 0"
    by (simp_all add: count_clean)
  from w f c clean_text[of source] show ?thesis by simp
qed

theorem writer_sanitizes_witness:
  "written (write_source_target_pairs_to_tsv (fixed_world [] [])
              [Yield (JString [CHR ''a'', TAB, CHR ''b''], JString [CHR ''c'', LF, CR, CHR ''d''])]
              ''out.tsv'') =
     Some (''out.tsv'', [CHR ''a'', SPACE, CHR ''b'', TAB, CHR ''c'', SPACE, SPACE, CHR ''d'', LF])"
proof -
  have c: "create_file (fixed_world [] []) ''out.tsv'' = None"
    by (simp add: fixed_world_files)
  have r: "raised [Yield (JString [CHR ''a'', TAB, CHR ''b''],
                          JString [CHR ''c'', LF, CR, CHR ''d''])] = None"
    by simp
  have y: "yielded [Yield (JString [CHR ''a'', TAB, CHR ''b''],
                           JString [CHR ''c'', LF, CR, CHR ''d''])] =
             map (\<lambda>(source, target). (JString source, JString target))
               [([CHR ''a'', TAB, CHR ''b''], [CHR ''c'', LF, CR, CHR ''d''])]"
    by simp
  from writer_sanitizes[OF c r y] show ?thesis
    by (simp add: sanitized_def)
qed

text \<open>
  C8. For every language code other than \<^verbatim>\<open>en\<close>, \<^verbatim>\<open>de\<close> and \<^verbatim>\<open>ru\<close>, in every
  world, preparing that language ends with the error for an unsupported language, and
  has opened, created and loaded nothing before. The three supported codes select the
  English, German and Russian model; when the texts are to be tokenized, loading that
  model is the first thing the run does.
\<close>

theorem unsupported_language_fails_first:
  shows "(language \<noteq> ''en'' \<and> language \<noteq> ''de'' \<and> language \<noteq> ''ru'' \<longrightarrow>
            prepare_clang8 w language clang8_targets_dir lang8_dir output_dir tokenize_text =
              \<lparr>events = [], written = None,
               failure = Some (ValueError (Unsupported_language language))\<rparr>) \<and>
         model_path_of ''en'' = Inr ''en_core_web_sm'' \<and>
         model_path_of ''de'' = Inr ''de_core_news_sm'' \<and>
         model_path_of ''ru'' = Inr ''ru_core_news_sm'' \<and>
         (model_path_of language = Inr model_path \<longrightarrow>
            hd (events (prepare_clang8 w language clang8_targets_dir lang8_dir output_dir True)) =
              Load_model model_path)"
proof -
  have "hd (events (prepare_clang8 w language clang8_targets_dir lang8_dir output_dir True)) =
              Load_model model_path" if "model_path_of language = Inr model_path"
    using that by (cases "load_model w model_path") (simp_all add: prepare_clang8_def Let_def)
  then show ?thesis
    by (simp add: prepare_clang8_def model_path_of_def)
qed

theorem unsupported_language_fails_first_witness:
  "prepare_clang8 (fixed_world example_targets [Decodes example_row]) ''fr''
     ''./targets'' ''lang8'' ''./output_data'' True =
     \<lparr>events = [], written = None, failure = Some (ValueError (Unsupported_language ''fr''))\<rparr> \<and>
   hd (events (prepare_clang8 (fixed_world example_targets [Decodes example_row]) ''de''
                 ''./targets'' ''lang8'' ''./output_data'' True)) = Load_model ''de_core_news_sm''"
  using unsupported_language_fails_first
          [of "''fr''" "fixed_world example_targets [Decodes example_row]" "''./targets''"
              "''lang8''" "''./output_data''" True]
        unsupported_language_fails_first
          [of "''de''" "fixed_world example_targets [Decodes example_row]" "''./targets''"
              "''lang8''" "''./output_data''" True "''de_core_news_sm''"]
  by (simp add: model_path_of_def)

text \<open>
  C2 (amended). Let the language be a supported one, let the targets file of that
  language consist of the single line with the tab-separated fields 1, 2, 0, - and
  \<^verbatim>\<open>Hello world.\<close>, and let the raw corpus consist of a single line that decodes to an
  array whose first two elements are 1 and 2 and whose last element but one is the array
  of the sentences \<^verbatim>\<open>Hello wrold.\<close> and \<^verbatim>\<open>Next sentence.\<close>, as the rows of the Lang-8
  corpus are. Where the output file can be created, the pipeline without tokenization
  writes exactly the line \<^verbatim>\<open>Hello wrold.\<close>, a tab, \<^verbatim>\<open>Hello world.\<close>, a line feed, and
  ends without an error.
\<close>

theorem scenario_with_array_row:
  assumes "model_path_of language = Inr model_path"
    and "read_text w (path_join clang8_targets_dir (''clang8_'' @ language @ ''.detokenized.tsv'')) =
           Inr scenario_targets"
    and "read_json_lines w (path_join lang8_dir ''lang-8-20111007-L1-v2.dat'') =
           Inr [Decodes (JArray (JInt 1 # JInt 2 # middle @
                        [JArray [JString ''Hello wrold.'', JString ''Next sentence.''], last_field]))]"
    and "create_file w (output_path_of output_dir language []) = None"
  shows "written (prepare_clang8 w language clang8_targets_dir lang8_dir output_dir False) =
           Some (output_path_of output_dir language [],
                 ''Hello wrold.'' @ [TAB] @ ''Hello world.'' @ [LF]) \<and>
         failure (prepare_clang8 w language clang8_targets_dir lang8_dir output_dir False) = None"
proof -
  let ?row = "JArray (JInt 1 # JInt 2 # middle @
                        [JArray [JString ''Hello wrold.'', JString ''Next sentence.''], last_field])"
  define J where "J = yield_clang8_source_target_pairs w
          (path_join clang8_targets_dir (''clang8_'' @ language @ ''.detokenized.tsv'')) lang8_dir"
  define out where "out = output_path_of output_dir language []"
  have f: "fields_of_row ?row =
             Some ((1, 2), JArray [JString ''Hello wrold.'', JString ''Next sentence.''])"
    by (simp only: array_row_fields) (simp add: raw_ids_def)
  have jr: "join_row (index_of [((1, 2), (0, ''Hello world.''))] []) ?row =
              ([(JString ''Hello wrold.'', JString ''Hello world.'')], None)"
    by (simp add: join_row_fields[OF f] get_index_of get_Nil item_def)
  have y: "yielded J =
             map (\<lambda>p. (JString (fst p), JString (snd p))) [(''Hello wrold.'', ''Hello world.'')]"
    and r: "raised J = None"
    unfolding J_def using join_of_files[OF assms(2) scenario_entries assms(3)]
    by (simp_all add: jr)
  have c: "create_file w out = None" unfolding out_def by (rule assms(4))
  have W: "write_source_target_pairs_to_tsv w J out =
          \<lparr>events = Open_write out # effects J @ [Print (Wrote out)],
           written = Some (out, ''Hello wrold.'' @ [TAB] @ ''Hello world.'' @ [LF]),
           failure = None\<rparr>"
    by (simp add: write_source_target_pairs_to_tsv_def c write_loop_texts[OF r y] sanitized_def)
  have P: "prepare_clang8 w language clang8_targets_dir lang8_dir output_dir False =
             write_source_target_pairs_to_tsv w J out"
    unfolding J_def out_def by (rule prepare_untokenized[OF assms(1)])
  show ?thesis unfolding P W by (simp add: out_def)
qed

theorem scenario_with_array_row_witness:
  "written (prepare_clang8
              (fixed_world scenario_targets
                 [Decodes (JArray [JInt 1, JInt 2,
                          JArray [JString ''Hello wrold.'', JString ''Next sentence.''], JNull])])
              ''en'' ''./targets'' ''lang8'' ''./output_data'' False) =
     Some (''./output_data/clang8_source_target_en.tsv'',
           ''Hello wrold.'' @ [TAB] @ ''Hello world.'' @ [LF])"
proof -
  let ?w = "fixed_world scenario_targets
                 [Decodes (JArray [JInt 1, JInt 2,
                          JArray [JString ''Hello wrold.'', JString ''Next sentence.''], JNull])]"
  have m: "model_path_of ''en'' = Inr ''en_core_web_sm''"
    by (simp add: model_path_of_def)
  have t: "read_text ?w (path_join ''./targets'' (''clang8_'' @ ''en'' @ ''.detokenized.tsv'')) =
           Inr scenario_targets"
    by (simp only: fixed_world_files)
  have c: "read_json_lines ?w (path_join ''lang8'' ''lang-8-20111007-L1-v2.dat'') =
           Inr [Decodes (JArray (JInt 1 # JInt 2 # [] @
                        [JArray [JString ''Hello wrold.'', JString ''Next sentence.''], JNull]))]"
    by (simp add: fixed_world_files)
  have o: "create_file ?w (output_path_of ''./output_data'' ''en'' []) = None"
    by (simp only: fixed_world_files)
  from scenario_with_array_row[OF m t c o] show ?thesis
    by (simp add: output_path_of_def path_join_def)
qed

text \<open>
  C2 as stated fails: a line that decodes to an object with the three fields
  \<^verbatim>\<open>journal_id\<close>, \<^verbatim>\<open>sentence_id\<close> and \<^verbatim>\<open>sources\<close> is unpacked by position over its
  three keys, where at least four values are needed. The run ends with the error of the
  tuple assignment and leaves the output file empty.
\<close>

theorem scenario_counterexample:
  "failure (prepare_clang8
              (fixed_world scenario_targets
                 [Decodes (JObject [(''journal_id'', JInt 1), (''sentence_id'', JInt 2),
                          (''sources'', JArray [JString ''Hello wrold.'', JString ''Next sentence.''])])])
              ''en'' ''./targets'' ''lang8'' ''./output_data'' False) =
     Some (ValueError Unpack_mismatch) \<and>
   written (prepare_clang8
              (fixed_world scenario_targets
                 [Decodes (JObject [(''journal_id'', JInt 1), (''sentence_id'', JInt 2),
                          (''sources'', JArray [JString ''Hello wrold.'', JString ''Next sentence.''])])])
              ''en'' ''./targets'' ''lang8'' ''./output_data'' False) =
     Some (''./output_data/clang8_source_target_en.tsv'', [])"
proof -
  let ?row = "JObject [(''journal_id'', JInt 1), (''sentence_id'', JInt 2),
                          (''sources'', JArray [JString ''Hello wrold.'', JString ''Next sentence.''])]"
  define w where "w = fixed_world scenario_targets [Decodes ?row]"
  define J where "J = yield_clang8_source_target_pairs w
          (path_join ''./targets'' (''clang8_'' @ ''en'' @ ''.detokenized.tsv'')) ''lang8''"
  define out where "out = output_path_of ''./output_data'' ''en'' []"
  have t: "read_text w (path_join ''./targets'' (''clang8_'' @ ''en'' @ ''.detokenized.tsv'')) =
             Inr scenario_targets"
    and c: "read_json_lines w (path_join ''lang8'' ''lang-8-20111007-L1-v2.dat'') = Inr [Decodes ?row]"
    and o: "create_file w out = None"
    unfolding w_def by (simp_all only: fixed_world_files)
  have jr: "join_row idx ?row = ([], Some (ValueError Unpack_mismatch))" for idx
    by (simp add: join_row_def unpack_row_def)
  have y: "yielded J = []" and r: "raised J = Some (ValueError Unpack_mismatch)"
    unfolding J_def using join_of_files[OF t scenario_entries c] by (simp_all add: jr)
  have W: "write_source_target_pairs_to_tsv w J out =
          \<lparr>events = Open_write out # effects J, written = Some (out, []),
           failure = Some (ValueError Unpack_mismatch)\<rparr>"
    by (simp add: write_source_target_pairs_to_tsv_def o write_loop_raised[OF y r])
  have m: "model_path_of ''en'' = Inr ''en_core_web_sm''"
    by (simp add: model_path_of_def)
  have P: "prepare_clang8 w ''en'' ''./targets'' ''lang8'' ''./output_data'' False =
             write_source_target_pairs_to_tsv w J out"
    unfolding J_def out_def by (rule prepare_untokenized[OF m])
  have "out = ''./output_data/clang8_source_target_en.tsv''"
    by (simp add: out_def output_path_of_def path_join_def)
  with P W show ?thesis unfolding w_def by simp
qed

end
